theory Spec2Isabelle
  imports Complex_Main
begin

section \<open>Strings of the source language\<close>

text \<open>
  A JavaScript string is a sequence of UTF-16 code units. A code unit is modelled as a
  natural number below 65536 and a string as the list of its code units, so that
  \<open>length\<close> is \<^verbatim>\<open>.length\<close> and \<open>!\<close> is \<^verbatim>\<open>charAt\<close> inside the string. ASCII literals are
  written \<open>js ''...''\<close>; other characters are written by their code point.
\<close>

type_synonym jschar = nat
type_synonym jsstring = "jschar list"

definition js :: "string \<Rightarrow> jsstring" where
  "js s = map of_char s"

text \<open>\<^verbatim>\<open>\s\<close> of a regular expression, which is also what \<^verbatim>\<open>trim()\<close> strips: the white space
  and line terminator code points of ECMAScript.\<close>

definition isSpace :: "jschar \<Rightarrow> bool" where
  "isSpace c = (c = 9 \<or> c = 10 \<or> c = 11 \<or> c = 12 \<or> c = 13 \<or> c = 32 \<or> c = 160
     \<or> c = 5760 \<or> (8192 \<le> c \<and> c \<le> 8202) \<or> c = 8232 \<or> c = 8233 \<or> c = 8239
     \<or> c = 8287 \<or> c = 12288 \<or> c = 65279)"

text \<open>The line terminators, which \<^verbatim>\<open>.\<close> of a regular expression does not match.\<close>

definition isLineTerminator :: "jschar \<Rightarrow> bool" where
  "isLineTerminator c = (c = 10 \<or> c = 13 \<or> c = 8232 \<or> c = 8233)"

definition dot :: "jschar \<Rightarrow> bool" where
  "dot c = (\<not> isLineTerminator c)"

definition isDigit :: "jschar \<Rightarrow> bool" where
  "isDigit c = (48 \<le> c \<and> c \<le> 57)"

definition isUpper :: "jschar \<Rightarrow> bool" where
  "isUpper c = (65 \<le> c \<and> c \<le> 90)"

definition isLower :: "jschar \<Rightarrow> bool" where
  "isLower c = (97 \<le> c \<and> c \<le> 122)"

definition isLatin :: "jschar \<Rightarrow> bool" where
  "isLatin c = (isUpper c \<or> isLower c)"

text \<open>The character class \<^verbatim>\<open>[a-zA-Z]\<close> extended by the Georgian block U+10A0 to U+10FF.\<close>

definition isLetter :: "jschar \<Rightarrow> bool" where
  "isLetter c = (isLatin c \<or> (4256 \<le> c \<and> c \<le> 4351))"

text \<open>\<^verbatim>\<open>\w\<close>, which decides where \<^verbatim>\<open>\b\<close> holds.\<close>

definition isWordChar :: "jschar \<Rightarrow> bool" where
  "isWordChar c = (isLatin c \<or> isDigit c \<or> c = 95)"

text \<open>
  \<^verbatim>\<open>String.prototype.toLowerCase\<close> is a built-in of the language. It is modelled code unit by
  code unit on the blocks this program's tables use: Basic Latin and Latin-1 (U+0000 to
  U+00FF), basic Cyrillic (U+0400 to U+045F) and Georgian (U+10A0 to U+10FF, Asomtavruli
  to Nuskhuri, and U+1C90 to U+1CBF, Mtavruli to Mkhedruli). On a string of these blocks
  \<open>toLowerCase\<close> is the built-in. Outside them the model copies the code unit, which the
  built-in does not always do (U+0160 becomes U+0161, U+212A becomes \<^verbatim>\<open>k\<close>, U+0130 becomes two
  code units): a statement about every string is made for the strings of these blocks,
  \<open>list_all inLowerCaseBlocks\<close>.
\<close>

definition inLowerCaseBlocks :: "jschar \<Rightarrow> bool" where
  "inLowerCaseBlocks c =
     (c \<le> 255 \<or> (1024 \<le> c \<and> c \<le> 1119) \<or> (4256 \<le> c \<and> c \<le> 4351)
      \<or> (7312 \<le> c \<and> c \<le> 7359))"

definition lowerChar :: "jschar \<Rightarrow> jschar" where
  "lowerChar c =
     (if 65 \<le> c \<and> c \<le> 90 then c + 32
      else if 192 \<le> c \<and> c \<le> 222 \<and> c \<noteq> 215 then c + 32
      else if 1024 \<le> c \<and> c \<le> 1039 then c + 80
      else if 1040 \<le> c \<and> c \<le> 1071 then c + 32
      else if (4256 \<le> c \<and> c \<le> 4293) \<or> c = 4295 \<or> c = 4301 then c + 7264
      else if (7312 \<le> c \<and> c \<le> 7354) \<or> (7357 \<le> c \<and> c \<le> 7359) then c - 3008
      else c)"

definition toLowerCase :: "jsstring \<Rightarrow> jsstring" where
  "toLowerCase s = map lowerChar s"

definition trim :: "jsstring \<Rightarrow> jsstring" where
  "trim s = rev (dropWhile isSpace (rev (dropWhile isSpace s)))"

section \<open>Severity, detections and the decision policy\<close>

text \<open>\<^verbatim>\<open>severityLevels\<close>: the three tags \<^verbatim>\<open>'low'\<close>, \<^verbatim>\<open>'medium'\<close>, \<^verbatim>\<open>'high'\<close>, which are also the
  values of the \<^verbatim>\<open>severity\<close> column of the word table.\<close>

datatype severity = LOW | MEDIUM | HIGH

text \<open>Numbers of the source are IEEE doubles; the model computes with rationals. The field
  \<open>meth\<close> is the source's \<^verbatim>\<open>method\<close>.\<close>

record detection =
  word :: jsstring
  type :: string
  severity :: severity
  confidence :: rat
  meth :: string
  detectedVersion :: jsstring

fun levels :: "severity \<Rightarrow> int" where
  "levels LOW = 1"
| "levels MEDIUM = 2"
| "levels HIGH = 3"

definition compareSeverity :: "severity \<Rightarrow> severity \<Rightarrow> int" where
  "compareSeverity severity1 severity2 = levels severity1 - levels severity2"

text \<open>\<^verbatim>\<open>shouldFlagContent(detectedWords, maxSeverity, sensitivity)\<close>. The sensitivity is any string:
  the \<^verbatim>\<open>switch\<close> has a \<^verbatim>\<open>default\<close> branch.\<close>

definition shouldFlagContent :: "detection list \<Rightarrow> severity \<Rightarrow> string \<Rightarrow> bool" where
  "shouldFlagContent detectedWords maxSeverity sensitivity =
     (if length detectedWords = 0 then False
      else
        let highConfidenceDetections = filter (\<lambda>d. confidence d \<ge> 95 / 100) detectedWords;
            mediumConfidenceDetections =
              filter (\<lambda>d. confidence d \<ge> 85 / 100 \<and> confidence d < 95 / 100) detectedWords
        in if sensitivity = ''low'' then
             maxSeverity = HIGH \<and> length highConfidenceDetections > 0
           else if sensitivity = ''medium'' then
             maxSeverity = HIGH \<or>
             (maxSeverity = MEDIUM \<and> length mediumConfidenceDetections > 0)
           else if sensitivity = ''high'' then
             length detectedWords > 0
           else maxSeverity = HIGH \<or> maxSeverity = MEDIUM)"

definition getRecommendedAction :: "severity \<Rightarrow> nat \<Rightarrow> string" where
  "getRecommendedAction sev wordCount =
     (if sev = HIGH then (if wordCount > 2 then ''kick'' else ''timeout'')
      else if sev = MEDIUM then (if wordCount > 3 then ''timeout'' else ''delete'')
      else ''warn'')"

section \<open>The engine's state and the word store\<close>

text \<open>The settings object of a guild, with the fields \<^verbatim>\<open>getGuildSettings\<close> gives its default.\<close>

record guild_settings =
  enableModeration :: bool
  enableGeorgian :: bool
  actionType :: string
  sensitivityLevel :: string
  customWords :: "jsstring list"
  monitoredChannels :: "jsstring list"
  excludedRoles :: "jsstring list"

text \<open>The language tag of a word row (the \<^verbatim>\<open>ENUM\<close> of \<^verbatim>\<open>models/BadWord.js\<close>).\<close>

datatype language = english | georgian | harassment | custom

text \<open>An entry of a cached word list, as \<^verbatim>\<open>loadBadWords\<close> builds it from a row.\<close>

record bad_word =
  bw_word :: jsstring
  bw_language :: language
  bw_severity :: severity
  isGuildSpecific :: bool

text \<open>The fields of \<^verbatim>\<open>ContentModerationSystem\<close> that change after construction: four maps
  keyed by guild id (or by the cache key). \<open>customWordsOf\<close> is the field \<^verbatim>\<open>customWords\<close>.\<close>

record engine =
  customWordsOf :: "jsstring \<rightharpoonup> jsstring list"
  settings :: "jsstring \<rightharpoonup> guild_settings"
  badWordsCache :: "jsstring \<rightharpoonup> bad_word list"
  lastCacheUpdate :: "jsstring \<rightharpoonup> int"

definition cacheExpiry :: int where
  "cacheExpiry = 5 * 60 * 1000"

definition newEngine :: engine where
  "newEngine = \<lparr>customWordsOf = Map.empty, settings = Map.empty,
                 badWordsCache = Map.empty, lastCacheUpdate = Map.empty\<rparr>"

text \<open>
  The table \<^verbatim>\<open>bad_words\<close> behind the \<^verbatim>\<open>BadWord\<close> model is outside the engine. It is modelled as
  a call-counting stub: the rows (the columns the engine reads or writes), whether the
  database answers, and how many times \<^verbatim>\<open>findAll\<close> has been called. Columns are compared
  by equality.
\<close>

record row =
  r_word :: jsstring
  r_language :: language
  r_severity :: severity
  r_guildId :: "jsstring option"
  r_isActive :: bool
  r_addedBy :: "jsstring option"

record store =
  rows :: "row list"
  available :: bool
  findAllCalls :: nat

datatype error = StoreUnavailable

definition findAll :: "store \<Rightarrow> (row \<Rightarrow> bool) \<Rightarrow> (error + row list) \<times> store" where
  "findAll st wh =
     (if available st then Inr (filter wh (rows st)) else Inl StoreUnavailable,
      st\<lparr>findAllCalls := findAllCalls st + 1\<rparr>)"

definition create :: "store \<Rightarrow> row \<Rightarrow> (error + row) \<times> store" where
  "create st r =
     (if available st then (Inr r, st\<lparr>rows := rows st @ [r]\<rparr>)
      else (Inl StoreUnavailable, st))"

definition destroy :: "store \<Rightarrow> (row \<Rightarrow> bool) \<Rightarrow> (error + nat) \<times> store" where
  "destroy st wh =
     (if available st
      then (Inr (length (filter wh (rows st))), st\<lparr>rows := filter (\<lambda>r. \<not> wh r) (rows st)\<rparr>)
      else (Inl StoreUnavailable, st))"

text \<open>A guild id argument is \<^verbatim>\<open>null\<close> or a string; \<^verbatim>\<open>null\<close> and the empty string are falsy.\<close>

definition truthy :: "jsstring option \<Rightarrow> bool" where
  "truthy guildId = (case guildId of None \<Rightarrow> False | Some g \<Rightarrow> g \<noteq> [])"

text \<open>\<^verbatim>\<open>guildId || 'global'\<close>\<close>

definition cacheKeyOf :: "jsstring option \<Rightarrow> jsstring" where
  "cacheKeyOf guildId = (if truthy guildId then the guildId else js ''global'')"

definition processWord :: "row \<Rightarrow> bad_word" where
  "processWord bw = \<lparr>bw_word = toLowerCase (r_word bw), bw_language = r_language bw,
                      bw_severity = r_severity bw, isGuildSpecific = truthy (r_guildId bw)\<rparr>"

text \<open>\<^verbatim>\<open>loadBadWords(guildId)\<close> at the time \<open>now\<close> that \<^verbatim>\<open>Date.now()\<close> returns. The result is the
  returned list, the engine and the store after the call. The \<^verbatim>\<open>catch\<close> returns the empty
  list.\<close>

definition loadBadWords ::
  "engine \<Rightarrow> store \<Rightarrow> jsstring option \<Rightarrow> int \<Rightarrow> bad_word list \<times> engine \<times> store" where
  "loadBadWords e st guildId now =
     (let cacheKey = cacheKeyOf guildId;
          lastUpdate = (case lastCacheUpdate e cacheKey of None \<Rightarrow> 0 | Some t \<Rightarrow> t)
      in if now - lastUpdate < cacheExpiry then
           ((if truthy guildId
             then (case badWordsCache e (the guildId) of None \<Rightarrow> [] | Some ws \<Rightarrow> ws)
             else []), e, st)
         else
           let whereClause =
                 (if truthy guildId
                  then (\<lambda>r. r_guildId r = guildId \<and> r_language r = custom \<and> r_isActive r)
                  else (\<lambda>r. r_guildId r = None \<and> r_language r = custom \<and> r_isActive r))
           in case findAll st whereClause of
                (Inl err, st') \<Rightarrow> ([], e, st')
              | (Inr badWords, st') \<Rightarrow>
                  let processedWords = map processWord badWords
                  in (processedWords,
                      e\<lparr>badWordsCache := (badWordsCache e)(cacheKey \<mapsto> processedWords),
                        lastCacheUpdate := (lastCacheUpdate e)(cacheKey \<mapsto> now)\<rparr>,
                      st'))"

text \<open>\<^verbatim>\<open>addBadWord(word, language, severity, guildId, addedBy)\<close>: the \<^verbatim>\<open>language\<close> argument is not
  used, the row is always \<^verbatim>\<open>'custom'\<close>. An error of the store is thrown again (\<open>Inl\<close>).\<close>

definition addBadWord ::
  "engine \<Rightarrow> store \<Rightarrow> jsstring \<Rightarrow> language \<Rightarrow> severity \<Rightarrow> jsstring option \<Rightarrow> jsstring option
     \<Rightarrow> (error + row) \<times> engine \<times> store" where
  "addBadWord e st w lang sev guildId addedBy =
     (case create st \<lparr>r_word = trim (toLowerCase w), r_language = custom, r_severity = sev,
                       r_guildId = guildId, r_isActive = True, r_addedBy = addedBy\<rparr> of
        (Inl err, st') \<Rightarrow> (Inl err, e, st')
      | (Inr badWord, st') \<Rightarrow>
          let cacheKey = cacheKeyOf guildId
          in (Inr badWord,
              e\<lparr>badWordsCache := (badWordsCache e)(cacheKey := None),
                lastCacheUpdate := (lastCacheUpdate e)(cacheKey := None)\<rparr>,
              st'))"

definition removeBadWord ::
  "engine \<Rightarrow> store \<Rightarrow> jsstring \<Rightarrow> jsstring option \<Rightarrow> (error + bool) \<times> engine \<times> store" where
  "removeBadWord e st w guildId =
     (case destroy st (\<lambda>r. r_word r = trim (toLowerCase w) \<and> r_guildId r = guildId
                            \<and> r_language r = custom) of
        (Inl err, st') \<Rightarrow> (Inl err, e, st')
      | (Inr result, st') \<Rightarrow>
          let cacheKey = cacheKeyOf guildId
          in (Inr (result > 0),
              e\<lparr>badWordsCache := (badWordsCache e)(cacheKey := None),
                lastCacheUpdate := (lastCacheUpdate e)(cacheKey := None)\<rparr>,
              st'))"

text \<open>\<^verbatim>\<open>saveGuildSettings\<close>, \<^verbatim>\<open>getGuildSettings\<close>, \<^verbatim>\<open>shouldMonitorChannel\<close>, \<^verbatim>\<open>isUserExcluded\<close>.\<close>

definition saveGuildSettings :: "engine \<Rightarrow> jsstring \<Rightarrow> guild_settings \<Rightarrow> engine" where
  "saveGuildSettings e guildId s =
     e\<lparr>settings := (settings e)(guildId \<mapsto> s),
       customWordsOf := (customWordsOf e)(guildId \<mapsto> customWords s)\<rparr>"

definition defaultSettings :: guild_settings where
  "defaultSettings = \<lparr>enableModeration = True, enableGeorgian = True, actionType = ''warn'',
     sensitivityLevel = ''medium'', customWords = [], monitoredChannels = [],
     excludedRoles = []\<rparr>"

definition getGuildSettings :: "engine \<Rightarrow> jsstring \<Rightarrow> guild_settings" where
  "getGuildSettings e guildId =
     (case settings e guildId of None \<Rightarrow> defaultSettings | Some s \<Rightarrow> s)"

definition shouldMonitorChannel :: "engine \<Rightarrow> jsstring \<Rightarrow> jsstring \<Rightarrow> bool" where
  "shouldMonitorChannel e guildId channelId =
     (let s = getGuildSettings e guildId
      in length (monitoredChannels s) = 0 \<or> channelId \<in> set (monitoredChannels s))"

definition isUserExcluded :: "engine \<Rightarrow> jsstring \<Rightarrow> jsstring list \<Rightarrow> bool" where
  "isUserExcluded e guildId userRoles =
     (let s = getGuildSettings e guildId
      in list_ex (\<lambda>roleId. roleId \<in> set userRoles) (excludedRoles s))"

section \<open>String primitives\<close>

text \<open>\<^verbatim>\<open>s.startsWith(p)\<close> and \<^verbatim>\<open>s.includes(t)\<close>: \<open>t\<close> occurs in \<open>s\<close> as a contiguous run of code
  units.\<close>

fun startsWith :: "jsstring \<Rightarrow> jsstring \<Rightarrow> bool" where
  "startsWith s [] = True"
| "startsWith [] (p # ps) = False"
| "startsWith (c # cs) (p # ps) = (c = p \<and> startsWith cs ps)"

fun str_includes :: "jsstring \<Rightarrow> jsstring \<Rightarrow> bool" where
  "str_includes [] t = (t = [])"
| "str_includes (c # cs) t = (startsWith (c # cs) t \<or> str_includes cs t)"

text \<open>\<^verbatim>\<open>s.substring(a, b)\<close>: both indices are clamped to the string and swapped when out of
  order.\<close>

definition substring :: "jsstring \<Rightarrow> int \<Rightarrow> int \<Rightarrow> jsstring" where
  "substring s a b =
     (let n = int (length s);
          a' = min (max a 0) n;
          b' = min (max b 0) n;
          lo = min a' b';
          hi = max a' b'
      in take (nat (hi - lo)) (drop (nat lo) s))"

text \<open>\<^verbatim>\<open>[...s]\<close> iterates by code point: a high surrogate followed by a low surrogate is one
  element.\<close>

fun spread :: "jsstring \<Rightarrow> jsstring list" where
  "spread [] = []"
| "spread [c] = [[c]]"
| "spread (h # l # cs) =
     (if 55296 \<le> h \<and> h \<le> 56319 \<and> 56320 \<le> l \<and> l \<le> 57343
      then [h, l] # spread cs
      else [h] # spread (l # cs))"

text \<open>\<^verbatim>\<open>s.split(/\s+/)\<close>: the pieces between maximal runs of white space. \<open>inSep\<close> says that
  the previous code unit was white space; \<open>cur\<close> is the piece being read.\<close>

fun splitSpaces :: "bool \<Rightarrow> jsstring \<Rightarrow> jsstring \<Rightarrow> jsstring list" where
  "splitSpaces inSep cur [] = [cur]"
| "splitSpaces inSep cur (c # cs) =
     (if isSpace c then (if inSep then splitSpaces True cur cs else cur # splitSpaces True [] cs)
      else splitSpaces False (cur @ [c]) cs)"

text \<open>
  \<^verbatim>\<open>s.replace(re, replacement)\<close> for a global regular expression \<open>re\<close>. The matcher \<open>m\<close> is
  the regular expression at one position: from the code unit before the position (for
  \<^verbatim>\<open>\b\<close>) and the rest of the string it gives the length of the match and the text that
  replaces it. Matching resumes after the match; a code unit where nothing matches is
  copied. \<open>skip\<close> counts the code units of the current match still to be passed. No regular
  expression of this program matches the empty string.
\<close>

fun gsub :: "(jschar option \<Rightarrow> jsstring \<Rightarrow> (nat \<times> jsstring) option) \<Rightarrow> nat \<Rightarrow> jschar option
              \<Rightarrow> jsstring \<Rightarrow> jsstring" where
  "gsub m skip prev [] = []"
| "gsub m skip prev (c # cs) =
     (if skip > 0 then gsub m (skip - 1) (Some c) cs
      else case m prev (c # cs) of
             None \<Rightarrow> c # gsub m 0 (Some c) cs
           | Some (n, out) \<Rightarrow>
               if n = 0 then out @ c # gsub m 0 (Some c) cs
               else out @ gsub m (n - 1) (Some c) cs)"

definition replaceRe :: "(jschar option \<Rightarrow> jsstring \<Rightarrow> (nat \<times> jsstring) option) \<Rightarrow> jsstring
                          \<Rightarrow> jsstring" where
  "replaceRe m s = gsub m 0 None s"

text \<open>A literal pattern (every pattern built with \<^verbatim>\<open>new RegExp\<close> here is a literal, escaped
  or free of special characters), replaced by \<open>rep\<close>.\<close>

definition reLiteral :: "jsstring \<Rightarrow> jsstring \<Rightarrow> jschar option \<Rightarrow> jsstring
                          \<Rightarrow> (nat \<times> jsstring) option" where
  "reLiteral pat rep prev s = (if startsWith s pat then Some (length pat, rep) else None)"

text \<open>\<^verbatim>\<open>/\s+/g\<close>\<close>

definition reSpaces :: "jsstring \<Rightarrow> jschar option \<Rightarrow> jsstring \<Rightarrow> (nat \<times> jsstring) option" where
  "reSpaces rep prev s =
     (let n = length (takeWhile isSpace s) in if n \<ge> 1 then Some (n, rep) else None)"

section \<open>Similarity\<close>

text \<open>One row of the matrix of \<^verbatim>\<open>calculateLevenshteinDistance\<close>: \<open>c2\<close> is \<^verbatim>\<open>str2.charAt(i - 1)\<close>,
  the list pairs \<^verbatim>\<open>str1.charAt(j - 1)\<close> with \<^verbatim>\<open>matrix[i - 1][j - 1]\<close> and \<^verbatim>\<open>matrix[i - 1][j]\<close>,
  and \<open>left\<close> is \<^verbatim>\<open>matrix[i][j - 1]\<close>.\<close>

fun levCells :: "jschar \<Rightarrow> (jschar \<times> nat \<times> nat) list \<Rightarrow> nat \<Rightarrow> nat list" where
  "levCells c2 [] left = []"
| "levCells c2 ((c1, diag, up) # rest) left =
     (let v = (if c2 = c1 then diag else min (diag + 1) (min (left + 1) (up + 1)))
      in v # levCells c2 rest v)"

definition levRow :: "jsstring \<Rightarrow> nat list \<Rightarrow> nat \<times> jschar \<Rightarrow> nat list" where
  "levRow str1 prevRow ic = (case ic of (i, c2) \<Rightarrow>
     i # levCells c2 (zip str1 (zip prevRow (tl prevRow))) i)"

definition calculateLevenshteinDistance :: "jsstring \<Rightarrow> jsstring \<Rightarrow> nat" where
  "calculateLevenshteinDistance str1 str2 =
     (let len1 = length str1; len2 = length str2
      in if len1 = 0 then len2
         else if len2 = 0 then len1
         else last (foldl (levRow str1) [0 ..< Suc len1] (zip [1 ..< Suc len2] str2)))"

text \<open>The first loop of \<^verbatim>\<open>calculateJaroSimilarity\<close>, from index \<open>i\<close> of \<^verbatim>\<open>str1\<close> on: the flags
  \<^verbatim>\<open>str1Matches\<close> of the code units read and the final \<^verbatim>\<open>str2Matches\<close>.\<close>

fun jaroMatches :: "jsstring \<Rightarrow> int \<Rightarrow> jsstring \<Rightarrow> nat \<Rightarrow> bool list \<Rightarrow> bool list \<times> bool list" where
  "jaroMatches str2 matchWindow [] i str2Matches = ([], str2Matches)"
| "jaroMatches str2 matchWindow (c # cs) i str2Matches =
     (let start = max 0 (int i - matchWindow);
          end = min (int i + matchWindow + 1) (int (length str2))
      in case find (\<lambda>j. \<not> str2Matches ! j \<and> c = str2 ! j) [nat start ..< nat end] of
           None \<Rightarrow>
             (case jaroMatches str2 matchWindow cs (i + 1) str2Matches of
                (m1, m2) \<Rightarrow> (False # m1, m2))
         | Some j \<Rightarrow>
             (case jaroMatches str2 matchWindow cs (i + 1) (str2Matches[j := True]) of
                (m1, m2) \<Rightarrow> (True # m1, m2)))"

text \<open>The second loop: \<open>ys\<close> is \<^verbatim>\<open>str2\<close> with its flags from index \<^verbatim>\<open>k\<close> on. The inner
  \<^verbatim>\<open>while (!str2Matches[k]) k++\<close> has no bound: reading past the end it would never stop,
  which is the result \<open>None\<close>.\<close>

fun jaroTranspositions :: "(jschar \<times> bool) list \<Rightarrow> (jschar \<times> bool) list \<Rightarrow> nat option" where
  "jaroTranspositions [] ys = Some 0"
| "jaroTranspositions ((c, m) # xs) ys =
     (if \<not> m then jaroTranspositions xs ys
      else case dropWhile (\<lambda>(d, m'). \<not> m') ys of
             [] \<Rightarrow> None
           | (d, m') # ys' \<Rightarrow>
               map_option (\<lambda>t. if c \<noteq> d then t + 1 else t) (jaroTranspositions xs ys'))"

text \<open>The value that \<^verbatim>\<open>calculateJaroSimilarity\<close> returns from its counters.\<close>

definition jaroScore :: "nat \<Rightarrow> nat \<Rightarrow> nat \<Rightarrow> nat \<Rightarrow> rat" where
  "jaroScore matches len1 len2 transpositions =
     (of_nat matches / of_nat len1 + of_nat matches / of_nat len2
      + (of_nat matches - of_nat transpositions / 2) / of_nat matches) / 3"

definition calculateJaroSimilarity :: "jsstring \<Rightarrow> jsstring \<Rightarrow> rat option" where
  "calculateJaroSimilarity str1 str2 =
     (if str1 = str2 then Some 1
      else
        let len1 = length str1; len2 = length str2
        in if len1 = 0 \<or> len2 = 0 then Some 0
           else
             let matchWindow = int (max len1 len2 div 2) - 1
             in case jaroMatches str2 matchWindow str1 0 (replicate len2 False) of
                  (str1Matches, str2Matches) \<Rightarrow>
                    let matches = length (filter (\<lambda>b. b) str1Matches)
                    in if matches = 0 then Some 0
                       else map_option (jaroScore matches len1 len2)
                              (jaroTranspositions (zip str1 str1Matches)
                                 (zip str2 str2Matches)))"

text \<open>\<^verbatim>\<open>chars2.findIndex((c, i) => c === char && !used.has(i))\<close>\<close>

definition findUnused :: "jsstring list \<Rightarrow> nat list \<Rightarrow> jsstring \<Rightarrow> nat option" where
  "findUnused chars2 used ch =
     find (\<lambda>i. chars2 ! i = ch \<and> i \<notin> set used) [0 ..< length chars2]"

fun overlapMatches :: "jsstring list \<Rightarrow> jsstring list \<Rightarrow> nat list \<Rightarrow> nat" where
  "overlapMatches [] chars2 used = 0"
| "overlapMatches (ch # chars1) chars2 used =
     (case findUnused chars2 used ch of
        None \<Rightarrow> overlapMatches chars1 chars2 used
      | Some index \<Rightarrow> overlapMatches chars1 chars2 (index # used) + 1)"

definition calculateCharacterOverlap :: "jsstring \<Rightarrow> jsstring \<Rightarrow> rat" where
  "calculateCharacterOverlap str1 str2 =
     (let chars1 = spread str1; chars2 = spread str2
      in of_nat (overlapMatches chars1 chars2 [] * 2) / of_nat (length chars1 + length chars2))"

text \<open>\<^verbatim>\<open>calculateAdvancedSimilarity(word1, word2)\<close>; \<open>None\<close> only if the Jaro loop does not
  return.\<close>

definition calculateAdvancedSimilarity :: "jsstring \<Rightarrow> jsstring \<Rightarrow> rat option" where
  "calculateAdvancedSimilarity word1 word2 =
     (if word1 = [] \<or> word2 = [] then Some 0
      else if word1 = word2 then Some 1
      else
        let len1 = length word1; len2 = length word2; maxLen = max len1 len2
        in if \<bar>int len1 - int len2\<bar> > int (min len1 len2) then Some 0
           else
             let levenshtein =
                   1 - of_nat (calculateLevenshteinDistance word1 word2) / of_nat maxLen
             in case calculateJaroSimilarity word1 word2 of
                  None \<Rightarrow> None
                | Some jaro \<Rightarrow>
                    let overlap = calculateCharacterOverlap word1 word2;
                        containment =
                          (if str_includes word1 word2 \<or> str_includes word2 word1
                           then 8 / 10 else 0)
                    in Some (max (levenshtein * (4 / 10) + jaro * (3 / 10) + overlap * (2 / 10)
                                  + containment * (1 / 10))
                                 containment))"

section \<open>Text normalization\<close>

text \<open>
  \<^verbatim>\<open>Object.entries(this.commonSubstitutions)\<close>: the keys that are array indices come first, in
  ascending order, then the other keys in the order they were written, which here is
  the order of the source. The Georgian and Cyrillic characters are written by their code
  points.
\<close>

definition commonSubstitutions :: "(jsstring \<times> jsstring list) list" where
  "commonSubstitutions =
     [(js ''0'', [js ''o'', [4317]]), (js ''1'', [js ''i'', js ''l'', [4312]]),
      (js ''3'', [js ''e'', [4308]]), (js ''4'', [js ''a'', [4304]]),
      (js ''5'', [js ''s'', [4321]]), (js ''6'', [js ''g'', [4306]]),
      (js ''7'', [js ''t'', [4322]]), (js ''8'', [js ''b'', [4305]]),
      (js ''9'', [js ''g'', [4306]]),
      (js ''@'', [js ''a'', [4304]]), (js ''!'', [js ''i'', [4312]]), (js ''#'', [js ''h'']),
      (js ''$'', [js ''s'', [4321]]), (js ''%'', [js ''s'', [4321]]),
      (js ''^'', [js ''a'', [4304]]), (js ''&'', [js ''a'', [4304]]),
      (js ''*'', [js ''a'', [4304]]), (js ''('', [js ''c'', [4330]]),
      (js '')'', [js ''c'', [4330]]),
      (js ''-'', [[]]), (js ''_'', [[]]), (js ''+'', [js ''t'', [4322]]),
      (js ''='', [js ''e'', [4308]]), (js ''['', [js ''c'', [4330]]),
      (js '']'', [js ''c'', [4330]]),
      (js ''{'', [js ''c'', [4330]]), (js ''}'', [js ''c'', [4330]]),
      (js ''|'', [js ''i'', js ''l'', [4312]]), ([92], [[]]), (js ''/'', [[]]),
      (js '':'', [[]]), (js '';'', [[]]), ([34], [[]]), ([39], [[]]),
      (js ''<'', [js ''c'', [4330]]), (js ''>'', [js ''c'', [4330]]),
      (js '','', [[]]), (js ''.'', [[]]), (js ''?'', [[]]), (js ''~'', [[]]), ([96], [[]]),
      ([1072], [js ''a'']), ([1077], [js ''e'']), ([1086], [js ''o'']), ([1088], [js ''p'']),
      ([1089], [js ''c'']), ([1091], [js ''y'']), ([1093], [js ''x'']),
      ([1040], [js ''A'']), ([1045], [js ''E'']), ([1054], [js ''O'']), ([1056], [js ''P'']),
      ([1057], [js ''C'']), ([1059], [js ''Y'']), ([1061], [js ''X'']),
      (js ''vv'', [js ''w'']), (js ''w'', [js ''vv'']), (js ''rn'', [js ''m'']),
      (js ''m'', [js ''rn'']), (js ''cl'', [js ''d'']), (js ''ii'', [js ''u'']),
      (js ''oo'', [js ''8'']), (js ''ll'', [js ''u'']), (js ''nn'', [js ''u''])]"

text \<open>\<^verbatim>\<open>Object.entries(this.phoneticPatterns)\<close>\<close>

definition phoneticPatterns :: "(jsstring \<times> jsstring list) list" where
  "phoneticPatterns =
     [(js ''f'', [js ''ph'', js ''gh'']), (js ''k'', [js ''c'', js ''ck'', js ''q'']),
      (js ''s'', [js ''z'', js ''ss'']), (js ''i'', [js ''y'', js ''ee'']),
      (js ''u'', [js ''oo'', js ''ou'']), (js ''er'', [js ''ur'', js ''or'']),
      (js ''tion'', [js ''shun'', js ''sion'']), (js ''ph'', [js ''f'']),
      (js ''ck'', [js ''k'']), (js ''qu'', [js ''kw'']), (js ''x'', [js ''ks'']),
      (js ''z'', [js ''s''])]"

text \<open>
  The tail of the three separator patterns: \<^verbatim>\<open>\s{lo,}(.)\<close> at the start of \<open>rest\<close>, greedy
  with backtracking. The white space run is as long as possible such that a code unit
  that \<^verbatim>\<open>.\<close> matches follows it; the result is the length of the run and that code unit.
\<close>

definition joinTail :: "nat \<Rightarrow> jsstring \<Rightarrow> (nat \<times> jschar) option" where
  "joinTail lo rest =
     (let n = length (takeWhile isSpace rest)
      in case find (\<lambda>j. j < length rest \<and> dot (rest ! j)) (rev [lo ..< Suc n]) of
           None \<Rightarrow> None
         | Some j \<Rightarrow> Some (j, rest ! j))"

text \<open>\<^verbatim>\<open>this.bypassPatterns\<close>, each with the replacement \<^verbatim>\<open>'$1$2'\<close> of \<^verbatim>\<open>deepNormalizeText\<close>.\<close>

text \<open>\<^verbatim>\<open>/(.)\s+(.)/g\<close>\<close>

definition reSpaced :: "jschar option \<Rightarrow> jsstring \<Rightarrow> (nat \<times> jsstring) option" where
  "reSpaced prev s =
     (case s of
        [] \<Rightarrow> None
      | c # rest \<Rightarrow>
          if dot c then
            (case joinTail 1 rest of None \<Rightarrow> None | Some (j, y) \<Rightarrow> Some (j + 2, [c, y]))
          else None)"

text \<open>\<^verbatim>\<open>/(.)\1{2,}/g\<close>: the pattern has one group, so \<^verbatim>\<open>$2\<close> of the replacement is not a
  reference and stays as the two characters \<^verbatim>\<open>$2\<close>.\<close>

definition reRepeated :: "jschar option \<Rightarrow> jsstring \<Rightarrow> (nat \<times> jsstring) option" where
  "reRepeated prev s =
     (case s of
        [] \<Rightarrow> None
      | c # rest \<Rightarrow>
          let k = length (takeWhile (\<lambda>x. x = c) rest)
          in if dot c \<and> k \<ge> 2 then Some (k + 1, c # js ''$2'') else None)"

text \<open>\<^verbatim>\<open>/([A-Z])([a-z])/g\<close>\<close>

definition reMixedCase :: "jschar option \<Rightarrow> jsstring \<Rightarrow> (nat \<times> jsstring) option" where
  "reMixedCase prev s =
     (case s of
        c # d # rest \<Rightarrow> if isUpper c \<and> isLower d then Some (2, [c, d]) else None
      | _ \<Rightarrow> None)"

text \<open>\<^verbatim>\<open>/(.)\.\s*(.)/g\<close> with \<open>isMid\<close> the full stop, \<^verbatim>\<open>/(.)[-_]\s*(.)/g\<close> with \<open>isMid\<close> the
  class \<^verbatim>\<open>[-_]\<close>.\<close>

definition reSeparated :: "(jschar \<Rightarrow> bool) \<Rightarrow> jschar option \<Rightarrow> jsstring
                            \<Rightarrow> (nat \<times> jsstring) option" where
  "reSeparated isMid prev s =
     (case s of
        c # d # rest \<Rightarrow>
          if dot c \<and> isMid d then
            (case joinTail 0 rest of None \<Rightarrow> None | Some (j, y) \<Rightarrow> Some (j + 3, [c, y]))
          else None
      | _ \<Rightarrow> None)"

text \<open>\<^verbatim>\<open>/([a-zA-Z])\d+([a-zA-Z])/g\<close>: the digits are followed by a letter, so the run of
  digits is the whole run.\<close>

definition reDigits :: "jschar option \<Rightarrow> jsstring \<Rightarrow> (nat \<times> jsstring) option" where
  "reDigits prev s =
     (case s of
        [] \<Rightarrow> None
      | c # rest \<Rightarrow>
          let n = length (takeWhile isDigit rest)
          in if isLatin c \<and> n \<ge> 1 \<and> n < length rest \<and> isLatin (rest ! n)
             then Some (n + 2, [c, rest ! n]) else None)"

definition bypassPatterns :: "(jschar option \<Rightarrow> jsstring \<Rightarrow> (nat \<times> jsstring) option) list" where
  "bypassPatterns =
     [reSpaced, reRepeated, reMixedCase, reSeparated (\<lambda>d. d = 46),
      reSeparated (\<lambda>d. d = 45 \<or> d = 95), reDigits]"

text \<open>\<^verbatim>\<open>/(.)\1+/g\<close> replaced by \<^verbatim>\<open>'$1'\<close>\<close>

definition reDuplicates :: "jschar option \<Rightarrow> jsstring \<Rightarrow> (nat \<times> jsstring) option" where
  "reDuplicates prev s =
     (case s of
        [] \<Rightarrow> None
      | c # rest \<Rightarrow>
          let k = length (takeWhile (\<lambda>x. x = c) rest)
          in if dot c \<and> k \<ge> 1 then Some (k + 1, [c]) else None)"

text \<open>The two nested loops over the entries of a table: \<open>one key s\<close> is the replacement of
  one entry of the array of a key.\<close>

definition applyTable :: "(jsstring \<Rightarrow> jsstring \<Rightarrow> jsstring \<Rightarrow> jsstring)
                           \<Rightarrow> (jsstring \<times> jsstring list) list \<Rightarrow> jsstring \<Rightarrow> jsstring" where
  "applyTable one table s =
     foldl (\<lambda>acc entry. case entry of (key, vals) \<Rightarrow> foldl (\<lambda>acc' v. one key v acc') acc vals)
       s table"

text \<open>\<^verbatim>\<open>generatePhoneticVariation\<close>: every listed spelling is replaced by its key.\<close>

definition generatePhoneticVariation :: "jsstring \<Rightarrow> jsstring" where
  "generatePhoneticVariation text =
     applyTable (\<lambda>original replacement phonetic.
                   replaceRe (reLiteral replacement original) phonetic)
       phoneticPatterns text"

text \<open>The first part of \<^verbatim>\<open>deepNormalizeText\<close>: the value of \<^verbatim>\<open>normalized\<close> when the
  variations are built, after the white space pass, the substitution table and the bypass
  patterns.\<close>

definition normalizeCore :: "jsstring \<Rightarrow> jsstring" where
  "normalizeCore text =
     (let normalized0 = trim (replaceRe (reSpaces (js '' '')) (toLowerCase text));
          normalized1 =
            applyTable (\<lambda>original replacement normalized.
                          replaceRe (reLiteral original replacement) normalized)
              commonSubstitutions normalized0
      in foldl (\<lambda>acc pattern. replaceRe pattern acc) normalized1 bypassPatterns)"

text \<open>\<^verbatim>\<open>/[^a-zA-Z\u10A0-\u10FF\s]/g\<close> replaced by the empty string.\<close>

definition lettersOnlyOf :: "jsstring \<Rightarrow> jsstring" where
  "lettersOnlyOf normalized = filter (\<lambda>c. isLetter c \<or> isSpace c) normalized"

text \<open>\<^verbatim>\<open>deepNormalizeText\<close>: the five variations, the empty ones removed.\<close>

definition deepNormalizeText :: "jsstring \<Rightarrow> jsstring list" where
  "deepNormalizeText text =
     (let normalized = normalizeCore text;
          lettersOnly = lettersOnlyOf normalized;
          variations =
            [normalized,
             lettersOnly,
             replaceRe (reSpaces []) lettersOnly,
             replaceRe reDuplicates lettersOnly,
             generatePhoneticVariation lettersOnly]
      in filter (\<lambda>v. length v > 0) variations)"

section \<open>Keyboard transliteration\<close>

definition georgianQwertyMap :: "(jschar \<times> jschar) list" where
  "georgianQwertyMap =
     [(113, 4325), (119, 4332), (101, 4308), (114, 4320), (116, 4322), (121, 4327),
      (117, 4323), (105, 4312), (111, 4317), (112, 4318),
      (97, 4304), (115, 4321), (100, 4307), (102, 4324), (103, 4306), (104, 4336),
      (106, 4335), (107, 4313), (108, 4314),
      (122, 4310), (120, 4334), (99, 4330), (118, 4309), (98, 4305), (110, 4316),
      (109, 4315)]"

definition georgianPatterns :: "(jsstring \<times> jsstring list) list" where
  "georgianPatterns =
     [(js ''debili'', [[4307, 4308, 4305, 4312, 4314, 4312],
                       [4307, 51, 4305, 4312, 4314, 4312], js ''d3bili'', js ''deb1li'']),
      (js ''dibili'', [[4307, 4308, 4305, 4312, 4314, 4312],
                       [4307, 4312, 4305, 4312, 4314, 4312]]),
      (js ''sheni deda'', [[4328, 4308, 4316, 4312, 32, 4307, 4308, 4307, 4304],
                           js ''sh3ni d3da'']),
      (js ''mokvdi'', [[4315, 4317, 4313, 4309, 4307, 4312], js ''m0kvdi'']),
      (js ''bozi'', [[4305, 4317, 4310, 4312], js ''b0zi'']),
      (js ''zaghli'', [[4331, 4304, 4326, 4314, 4312], js ''z4ghli'']),
      (js ''kurva'', [[4313, 4323, 4320, 4309, 4304], js ''kurv4'']),
      (js ''qle'', [[4327, 4314, 4308], js ''yl3'']),
      (js ''yle'', [[4327, 4314, 4308], js ''ql3'']),
      (js ''ubeduri'', [[4323, 4305, 4308, 4307, 4323, 4320, 4312], js ''ub3duri'']),
      (js ''suleli'', [[4321, 4323, 4314, 4308, 4314, 4312], js ''sul3li'']),
      (js ''cudi'', [[4330, 4323, 4307, 4312], js ''cud1''])]"

text \<open>Matching with the flag \<^verbatim>\<open>i\<close> compares canonical forms. A code unit outside ASCII never
  has an ASCII canonical form, and every pattern here is ASCII.\<close>

definition canonicalize :: "jschar \<Rightarrow> jschar" where
  "canonicalize c = (if isLower c then c - 32 else c)"

fun startsWithCI :: "jsstring \<Rightarrow> jsstring \<Rightarrow> bool" where
  "startsWithCI s [] = True"
| "startsWithCI [] (p # ps) = False"
| "startsWithCI (c # cs) (p # ps) = (canonicalize c = canonicalize p \<and> startsWithCI cs ps)"

text \<open>\<^verbatim>\<open>new RegExp(qwerty, 'gi')\<close> for a one-letter key.\<close>

definition reLetterCI :: "jschar \<Rightarrow> jschar \<Rightarrow> jschar option \<Rightarrow> jsstring
                           \<Rightarrow> (nat \<times> jsstring) option" where
  "reLetterCI qwerty georgianLetter prev s =
     (if startsWithCI s [qwerty] then Some (1, [georgianLetter]) else None)"

definition wordBefore :: "jschar option \<Rightarrow> bool" where
  "wordBefore prev = (case prev of None \<Rightarrow> False | Some c \<Rightarrow> isWordChar c)"

definition wordAt :: "jsstring \<Rightarrow> bool" where
  "wordAt s = (case s of [] \<Rightarrow> False | c # cs \<Rightarrow> isWordChar c)"

text \<open>\<^verbatim>\<open>new RegExp(`\\b${latin}\\b`, 'gi')\<close>: the literal between two word boundaries. A word
  boundary is a position with a word character on exactly one side.\<close>

definition reWord :: "jsstring \<Rightarrow> jsstring \<Rightarrow> jschar option \<Rightarrow> jsstring
                       \<Rightarrow> (nat \<times> jsstring) option" where
  "reWord latin rep prev s =
     (let n = length latin
      in if startsWithCI s latin then
           (let lastMatched = (if n = 0 then prev else Some (s ! (n - 1)))
            in if wordBefore prev \<noteq> wordAt s \<and> wordBefore lastMatched \<noteq> wordAt (drop n s)
               then Some (n, rep) else None)
         else None)"

definition convertQwertyToGeorgian :: "jsstring \<Rightarrow> jsstring" where
  "convertQwertyToGeorgian text =
     (let converted0 = toLowerCase text;
          converted1 =
            foldl (\<lambda>converted entry. case entry of (qwerty, georgianLetter) \<Rightarrow>
                     replaceRe (reLetterCI qwerty georgianLetter) converted)
              converted0 georgianQwertyMap
      in applyTable (\<lambda>latin georgianWord converted.
                       replaceRe (reWord latin georgianWord) converted)
           georgianPatterns converted1)"

section \<open>Detection\<close>

text \<open>A loop whose body may not return: the state after the last element, or \<open>None\<close>.\<close>

fun foldM :: "('a \<Rightarrow> 's \<Rightarrow> 's option) \<Rightarrow> 'a list \<Rightarrow> 's \<Rightarrow> 's option" where
  "foldM f [] s = Some s"
| "foldM f (x # xs) s = (case f x s of None \<Rightarrow> None | Some s' \<Rightarrow> foldM f xs s')"

text \<open>The result of \<^verbatim>\<open>findFuzzySubstring\<close>, \<^verbatim>\<open>{found, confidence}\<close>, and the result of
  \<^verbatim>\<open>detectWordWithAdvancedMatching\<close>, \<^verbatim>\<open>{found, confidence, method, version}\<close>.\<close>

record fuzzy =
  f_found :: bool
  f_confidence :: rat

record match =
  found :: bool
  m_confidence :: rat
  m_method :: string
  version :: jsstring

text \<open>\<^verbatim>\<open>findFuzzySubstring(text, target, threshold)\<close>: the start \<open>i\<close> runs from 0 to
  \<^verbatim>\<open>text.length - targetLen\<close>, the length from \<^verbatim>\<open>targetLen - 2\<close> to \<^verbatim>\<open>targetLen + 2\<close>.\<close>

definition fuzzyStep :: "jsstring \<Rightarrow> jsstring \<Rightarrow> rat \<Rightarrow> int \<times> int \<Rightarrow> fuzzy \<Rightarrow> fuzzy option" where
  "fuzzyStep text target threshold il bestMatch = (case il of (i, len) \<Rightarrow>
     if i + len > int (length text) then Some bestMatch
     else case calculateAdvancedSimilarity (substring text i (i + len)) target of
            None \<Rightarrow> None
          | Some similarity \<Rightarrow>
              Some (if similarity \<ge> threshold \<and> similarity > f_confidence bestMatch
                    then \<lparr>f_found = True, f_confidence = similarity\<rparr>
                    else bestMatch))"

definition findFuzzySubstring :: "jsstring \<Rightarrow> jsstring \<Rightarrow> rat \<Rightarrow> fuzzy option" where
  "findFuzzySubstring text target threshold =
     (let targetLen = int (length target)
      in foldM (fuzzyStep text target threshold)
           (List.product [0 .. int (length text) - targetLen] [targetLen - 2 .. targetLen + 2])
           \<lparr>f_found = False, f_confidence = 0\<rparr>)"

text \<open>The loop of \<^verbatim>\<open>detectCharacterSequence\<close> over the target's characters, with the counters
  \<^verbatim>\<open>matchedChars\<close> and \<^verbatim>\<open>textIndex\<close>; the result is \<^verbatim>\<open>matchedChars\<close>.\<close>

fun sequenceLoop :: "jsstring \<Rightarrow> nat \<Rightarrow> jsstring \<Rightarrow> nat \<Rightarrow> nat \<Rightarrow> nat" where
  "sequenceLoop cleanText maxGap [] matchedChars textIndex = matchedChars"
| "sequenceLoop cleanText maxGap (targetChar # rest) matchedChars textIndex =
     (let searchEnd = min (textIndex + maxGap + 5) (length cleanText)
      in case find (\<lambda>i. cleanText ! i = targetChar) [textIndex ..< searchEnd] of
           Some i \<Rightarrow> sequenceLoop cleanText maxGap rest (matchedChars + 1) (i + 1)
         | None \<Rightarrow>
             (let alternatives =
                    (case map_of commonSubstitutions [targetChar] of
                       None \<Rightarrow> [] | Some alts \<Rightarrow> alts)
              in (case List.map_filter
                         (\<lambda>alt. find (\<lambda>i. [cleanText ! i] = alt) [textIndex ..< searchEnd])
                         alternatives of
                    [] \<Rightarrow> sequenceLoop cleanText maxGap rest matchedChars textIndex
                  | i # _ \<Rightarrow> sequenceLoop cleanText maxGap rest (matchedChars + 1) (i + 1))))"

definition detectCharacterSequence :: "jsstring \<Rightarrow> jsstring \<Rightarrow> rat \<Rightarrow> bool" where
  "detectCharacterSequence text targetWord threshold =
     (let cleanText = toLowerCase (filter isLetter text);
          targetChars = toLowerCase targetWord
      in if length targetChars = 0 then False
         else
           let maxGap = length targetChars div 2;
               matchedChars = sequenceLoop cleanText maxGap targetChars 0 0;
               matchRatio = of_nat matchedChars / of_nat (length targetChars)
           in matchRatio \<ge> threshold)"

text \<open>Step 2 of the loop body of \<^verbatim>\<open>detectWordWithAdvancedMatching\<close> for one word of a
  version; \<open>conf\<close> is the parameter \<^verbatim>\<open>confidence\<close>.\<close>

definition similarityStep :: "jsstring \<Rightarrow> rat \<Rightarrow> jsstring \<Rightarrow> jsstring \<Rightarrow> match \<Rightarrow> match option" where
  "similarityStep targetWord conf vers w bestMatch =
     (case calculateAdvancedSimilarity w targetWord of
        None \<Rightarrow> None
      | Some similarity \<Rightarrow>
          Some (if similarity \<ge> conf \<and> similarity > m_confidence bestMatch
                then \<lparr>found = True, m_confidence = similarity, m_method = ''similarity'',
                      version = vers\<rparr>
                else bestMatch))"

text \<open>Step 3, from the result of the fuzzy search; step 4, the character sequence at the
  fixed confidence 0.85; step 5, the reversed target at 0.9.\<close>

definition afterFuzzy :: "jsstring \<Rightarrow> fuzzy \<Rightarrow> match \<Rightarrow> match" where
  "afterFuzzy vers fuzzyMatch bestMatch =
     (if f_found fuzzyMatch \<and> f_confidence fuzzyMatch > m_confidence bestMatch
      then \<lparr>found = True, m_confidence = f_confidence fuzzyMatch, m_method = ''fuzzy'',
            version = vers\<rparr>
      else bestMatch)"

definition afterSequence :: "jsstring \<Rightarrow> jsstring \<Rightarrow> match \<Rightarrow> match" where
  "afterSequence vers targetWord bestMatch =
     (if detectCharacterSequence vers targetWord (75 / 100) \<and> 85 / 100 > m_confidence bestMatch
      then \<lparr>found = True, m_confidence = 85 / 100, m_method = ''sequence'', version = vers\<rparr>
      else bestMatch)"

definition afterReverse :: "jsstring \<Rightarrow> jsstring \<Rightarrow> match \<Rightarrow> match" where
  "afterReverse vers targetWord bestMatch =
     (if str_includes vers (rev targetWord) \<and> 9 / 10 > m_confidence bestMatch
      then \<lparr>found = True, m_confidence = 9 / 10, m_method = ''reverse'', version = vers\<rparr>
      else bestMatch)"

definition versionStep :: "jsstring \<Rightarrow> rat \<Rightarrow> jsstring \<Rightarrow> match \<Rightarrow> match option" where
  "versionStep targetWord conf vers bestMatch =
     (let ws = filter (\<lambda>w. length w > 1) (splitSpaces False [] vers)
      in case foldM (similarityStep targetWord conf vers) ws bestMatch of
           None \<Rightarrow> None
         | Some best1 \<Rightarrow>
             (case findFuzzySubstring vers targetWord conf of
                None \<Rightarrow> None
              | Some fuzzyMatch \<Rightarrow>
                  Some (afterReverse vers targetWord
                          (afterSequence vers targetWord
                             (afterFuzzy vers fuzzyMatch best1)))))"

text \<open>The loop over the versions; the direct match returns from the function.\<close>

fun scanVersions :: "jsstring \<Rightarrow> rat \<Rightarrow> jsstring list \<Rightarrow> match \<Rightarrow> match option" where
  "scanVersions targetWord conf [] bestMatch = Some bestMatch"
| "scanVersions targetWord conf (vers # rest) bestMatch =
     (if length vers < 2 then scanVersions targetWord conf rest bestMatch
      else if str_includes vers targetWord then
        Some \<lparr>found = True, m_confidence = 1, m_method = ''direct'', version = vers\<rparr>
      else case versionStep targetWord conf vers bestMatch of
             None \<Rightarrow> None
           | Some bestMatch' \<Rightarrow> scanVersions targetWord conf rest bestMatch')"

definition normalizedVariations :: "jsstring \<Rightarrow> jsstring list" where
  "normalizedVariations text =
     (let georgianConverted = convertQwertyToGeorgian text
      in deepNormalizeText text @ [georgianConverted] @ deepNormalizeText georgianConverted)"

definition detectWordWithAdvancedMatching :: "jsstring \<Rightarrow> jsstring \<Rightarrow> rat \<Rightarrow> match option" where
  "detectWordWithAdvancedMatching text targetWord conf =
     scanVersions targetWord conf (normalizedVariations text)
       \<lparr>found = False, m_confidence = 0, m_method = ''none'', version = []\<rparr>"

section \<open>Analysis\<close>

text \<open>The options of \<^verbatim>\<open>analyzeContent\<close>, \<^verbatim>\<open>{sensitivity, guildId}\<close>; a field that is absent takes
  its default. The result has the fields \<^verbatim>\<open>severity\<close>, \<^verbatim>\<open>confidence\<close> and \<^verbatim>\<open>action\<close> of the
  source as \<open>a_severity\<close>, \<open>a_confidence\<close> and \<open>action\<close>.\<close>

record options =
  o_sensitivity :: "string option"
  o_guildId :: "jsstring option"

record analysis =
  isClean :: bool
  detectedWords :: "jsstring list"
  detectedDetails :: "detection list"
  a_severity :: severity
  a_confidence :: rat
  action :: string
  analysisMethod :: string

text \<open>The threshold table, with 0.85 for a sensitivity that is not one of its three keys.\<close>

definition confidenceThresholdOf :: "string \<Rightarrow> rat" where
  "confidenceThresholdOf sensitivity =
     (if sensitivity = ''low'' then 98 / 100
      else if sensitivity = ''medium'' then 85 / 100
      else if sensitivity = ''high'' then 70 / 100
      else 85 / 100)"

text \<open>The body of the loop over the loaded words; the state is \<^verbatim>\<open>detectedWords\<close>,
  \<^verbatim>\<open>maxSeverity\<close> and \<^verbatim>\<open>totalConfidence\<close>.\<close>

definition analyzeStep :: "jsstring \<Rightarrow> rat \<Rightarrow> bad_word \<Rightarrow> detection list \<times> severity \<times> rat
                            \<Rightarrow> (detection list \<times> severity \<times> rat) option" where
  "analyzeStep text confidenceThreshold wordData s = (case s of
     (detected, maxSeverity, totalConfidence) \<Rightarrow>
       let targetWord = toLowerCase (bw_word wordData)
       in case detectWordWithAdvancedMatching text targetWord confidenceThreshold of
            None \<Rightarrow> None
          | Some det \<Rightarrow>
              if found det \<and> m_confidence det \<ge> confidenceThreshold then
                Some (detected @ [\<lparr>word = bw_word wordData, type = ''custom'',
                                    severity = bw_severity wordData,
                                    confidence = m_confidence det, meth = m_method det,
                                    detectedVersion = version det\<rparr>],
                      (if compareSeverity (bw_severity wordData) maxSeverity > 0
                       then bw_severity wordData else maxSeverity),
                      min 1 (totalConfidence + m_confidence det * (3 / 10)))
              else Some (detected, maxSeverity, totalConfidence))"

text \<open>\<^verbatim>\<open>analyzeContent(text, options)\<close> at time \<open>now\<close>: the result with the engine and the store
  after the load, or \<open>None\<close> if a similarity loop does not return. The text is a string; the
  empty string is the input that fails the validation.\<close>

definition analyzeContent ::
  "engine \<Rightarrow> store \<Rightarrow> jsstring \<Rightarrow> options \<Rightarrow> int \<Rightarrow> (analysis \<times> engine \<times> store) option" where
  "analyzeContent e st text opts now =
     (if text = [] then
        Some (\<lparr>isClean = True, detectedWords = [], detectedDetails = [], a_severity = LOW,
               a_confidence = 0, action = ''warn'',
               analysisMethod = ''input_validation_fail''\<rparr>, e, st)
      else
        let sensitivity = (case o_sensitivity opts of None \<Rightarrow> ''medium'' | Some s \<Rightarrow> s);
            guildId = o_guildId opts
        in case loadBadWords e st guildId now of
             (badWords, e', st') \<Rightarrow>
               let confidenceThreshold = confidenceThresholdOf sensitivity
               in case foldM (analyzeStep text confidenceThreshold) badWords ([], LOW, 0) of
                    None \<Rightarrow> None
                  | Some (detected, maxSeverity, totalConfidence) \<Rightarrow>
                      let shouldFlag = shouldFlagContent detected maxSeverity sensitivity
                      in Some (\<lparr>isClean = \<not> shouldFlag,
                                 detectedWords = map word detected,
                                 detectedDetails = detected,
                                 a_severity = maxSeverity,
                                 a_confidence = totalConfidence,
                                 action = getRecommendedAction maxSeverity (length detected),
                                 analysisMethod = ''advanced_pattern_matching''\<rparr>, e', st'))"

text \<open>For the proofs: a step of the version loop changes the best match only to a match
  that is found, by a method other than the direct one, with a larger confidence.\<close>

definition step_of :: "match \<Rightarrow> match \<Rightarrow> bool" where
  "step_of a b =
     (b = a \<or> (found b \<and> m_confidence b > m_confidence a \<and> m_method b \<noteq> ''direct''))"

section \<open>Fixtures\<close>

definition sampleDetection :: detection where
  "sampleDetection = \<lparr>word = js ''badword'', type = ''custom'', severity = HIGH, confidence = 1,
     meth = ''direct'', detectedVersion = js ''badword''\<rparr>"

definition mediumDetection :: detection where
  "mediumDetection = \<lparr>word = js ''badword'', type = ''custom'', severity = MEDIUM,
     confidence = 9 / 10, meth = ''reverse'', detectedVersion = js ''drowdab''\<rparr>"

definition globalRow :: row where
  "globalRow = \<lparr>r_word = js ''Slur'', r_language = custom, r_severity = HIGH,
     r_guildId = None, r_isActive = True, r_addedBy = None\<rparr>"

definition globalStore :: store where
  "globalStore = \<lparr>rows = [globalRow], available = True, findAllCalls = 0\<rparr>"

definition guildRow :: row where
  "guildRow = \<lparr>r_word = js ''badword'', r_language = custom, r_severity = HIGH,
     r_guildId = Some (js ''guildA''), r_isActive = True, r_addedBy = None\<rparr>"

definition guildStore :: store where
  "guildStore = \<lparr>rows = [guildRow], available = True, findAllCalls = 0\<rparr>"

definition downStore :: store where
  "downStore = \<lparr>rows = [guildRow], available = False, findAllCalls = 0\<rparr>"

text \<open>An engine that loaded the list of \<^verbatim>\<open>guildA\<close> at time 1000.\<close>

definition staleEngine :: engine where
  "staleEngine = newEngine\<lparr>badWordsCache := [js ''guildA'' \<mapsto> [processWord guildRow]],
                            lastCacheUpdate := [js ''guildA'' \<mapsto> 1000]\<rparr>"

text \<open>An engine that loaded the list of \<^verbatim>\<open>guildA\<close> at time 1000000.\<close>

definition loadedEngine :: engine where
  "loadedEngine = newEngine\<lparr>badWordsCache := [js ''guildA'' \<mapsto> [processWord guildRow]],
                             lastCacheUpdate := [js ''guildA'' \<mapsto> 1000000]\<rparr>"

definition otherSettings :: guild_settings where
  "otherSettings = defaultSettings\<lparr>monitoredChannels := [js ''c1''], excludedRoles := [js ''r1'']\<rparr>"

section \<open>The decision policy\<close>

lemma js_simps: "js [] = []" "js (c # cs) = of_char c # js cs"
  by (simp_all add: js_def)

text \<open>
  C3. The flag decision per sensitivity tier, for a \<^verbatim>\<open>maxSeverity\<close> that is low when nothing
  was detected, which is how \<^verbatim>\<open>analyzeContent\<close>, the caller, computes it (lemma
  \<open>analyze_loop_severity\<close>). Under \<^verbatim>\<open>"low"\<close> it flags exactly when \<^verbatim>\<open>maxSeverity\<close> is high and a
  detection has confidence at least 0.95; under \<^verbatim>\<open>"medium"\<close> exactly when \<^verbatim>\<open>maxSeverity\<close> is high,
  or is medium and a detection has confidence in [0.85, 0.95); under \<^verbatim>\<open>"high"\<close> exactly when
  there is a detection.
\<close>

theorem shouldFlagContent_tiers:
  assumes "ds = [] \<longrightarrow> maxSeverity = LOW"
  shows "shouldFlagContent ds maxSeverity ''low'' =
           (maxSeverity = HIGH \<and> (\<exists>d \<in> set ds. confidence d \<ge> 95 / 100))
         \<and> shouldFlagContent ds maxSeverity ''medium'' =
           (maxSeverity = HIGH \<or>
              (maxSeverity = MEDIUM \<and>
                 (\<exists>d \<in> set ds. 85 / 100 \<le> confidence d \<and> confidence d < 95 / 100)))
         \<and> shouldFlagContent ds maxSeverity ''high'' = (ds \<noteq> [])"
  using assms by (auto simp: shouldFlagContent_def Let_def filter_empty_conv)

theorem shouldFlagContent_tiers_witness:
  "[mediumDetection] \<noteq> []
   \<and> \<not> shouldFlagContent [mediumDetection] MEDIUM ''low''
   \<and> shouldFlagContent [mediumDetection] MEDIUM ''medium''
   \<and> shouldFlagContent [mediumDetection] MEDIUM ''high''
   \<and> \<not> shouldFlagContent [] LOW ''low''
   \<and> \<not> shouldFlagContent [] LOW ''medium''
   \<and> \<not> shouldFlagContent [] LOW ''high''"
proof -
  have h1: "[mediumDetection] = [] \<longrightarrow> MEDIUM = LOW" by simp
  have h2: "([] :: detection list) = [] \<longrightarrow> LOW = LOW" by simp
  have c: "confidence mediumDetection = 9 / 10" by (simp add: mediumDetection_def)
  from shouldFlagContent_tiers [OF h1] shouldFlagContent_tiers [OF h2] c
  show ?thesis by simp
qed

text \<open>
  C7. For the same detections and the same \<^verbatim>\<open>maxSeverity\<close>, flagged under \<^verbatim>\<open>"low"\<close> implies
  flagged under \<^verbatim>\<open>"medium"\<close>, and flagged under \<^verbatim>\<open>"medium"\<close> implies flagged under \<^verbatim>\<open>"high"\<close>.
\<close>

theorem shouldFlagContent_monotone:
  "(shouldFlagContent ds maxSeverity ''low'' \<longrightarrow> shouldFlagContent ds maxSeverity ''medium'')
   \<and> (shouldFlagContent ds maxSeverity ''medium'' \<longrightarrow> shouldFlagContent ds maxSeverity ''high'')"
  by (auto simp: shouldFlagContent_def Let_def)

theorem shouldFlagContent_monotone_witness:
  "shouldFlagContent [sampleDetection] HIGH ''low''
   \<and> shouldFlagContent [sampleDetection] HIGH ''medium''
   \<and> shouldFlagContent [sampleDetection] HIGH ''high''"
proof -
  have low: "shouldFlagContent [sampleDetection] HIGH ''low''"
    by (simp add: shouldFlagContent_def sampleDetection_def)
  from low shouldFlagContent_monotone [of "[sampleDetection]" HIGH] show ?thesis by blast
qed

section \<open>Guild settings\<close>

lemma settings_saves:
  "guildId \<notin> fst ` set saves \<Longrightarrow>
   settings (foldl (\<lambda>e (g, s). saveGuildSettings e g s) e saves) guildId = settings e guildId"
  by (induction saves arbitrary: e) (auto simp: saveGuildSettings_def)

lemma settings_unset:
  assumes "settings e guildId = None"
  shows "getGuildSettings e guildId = defaultSettings
         \<and> shouldMonitorChannel e guildId channelId
         \<and> \<not> isUserExcluded e guildId userRoles"
  using assms
  by (simp add: getGuildSettings_def shouldMonitorChannel_def isUserExcluded_def
      defaultSettings_def)

lemma settings_untouched:
  "settings (fst (snd (loadBadWords e st guildId now))) = settings e
   \<and> settings (fst (snd (addBadWord e st w lang sev guildId addedBy))) = settings e
   \<and> settings (fst (snd (removeBadWord e st w guildId))) = settings e"
  by (simp add: loadBadWords_def addBadWord_def removeBadWord_def create_def destroy_def
      findAll_def Let_def split: sum.splits prod.splits)

text \<open>
  C10. \<^verbatim>\<open>saveGuildSettings\<close> is the only method that writes the settings map. After any
  sequence of saves for other guilds on a new engine, a guild that was never saved gets
  the default settings, every channel of it is monitored and no role list is excluded.
\<close>

theorem getGuildSettings_default:
  assumes "guildId \<notin> fst ` set saves"
  shows "getGuildSettings (foldl (\<lambda>e (g, s). saveGuildSettings e g s) newEngine saves) guildId
           = \<lparr>enableModeration = True, enableGeorgian = True, actionType = ''warn'',
              sensitivityLevel = ''medium'', customWords = [], monitoredChannels = [],
              excludedRoles = []\<rparr>
         \<and> shouldMonitorChannel
             (foldl (\<lambda>e (g, s). saveGuildSettings e g s) newEngine saves) guildId channelId
         \<and> \<not> isUserExcluded
             (foldl (\<lambda>e (g, s). saveGuildSettings e g s) newEngine saves) guildId userRoles"
proof -
  have "settings (foldl (\<lambda>e (g, s). saveGuildSettings e g s) newEngine saves) guildId = None"
    using settings_saves [OF assms, of newEngine] by (simp add: newEngine_def)
  from settings_unset [OF this] show ?thesis by (simp add: defaultSettings_def)
qed

theorem getGuildSettings_default_witness:
  "js ''guildA'' \<notin> fst ` set [(js ''guildB'', otherSettings)]
   \<and> getGuildSettings (saveGuildSettings newEngine (js ''guildB'') otherSettings) (js ''guildA'')
       = \<lparr>enableModeration = True, enableGeorgian = True, actionType = ''warn'',
          sensitivityLevel = ''medium'', customWords = [], monitoredChannels = [],
          excludedRoles = []\<rparr>
   \<and> shouldMonitorChannel (saveGuildSettings newEngine (js ''guildB'') otherSettings)
       (js ''guildA'') (js ''c2'')
   \<and> \<not> isUserExcluded (saveGuildSettings newEngine (js ''guildB'') otherSettings)
       (js ''guildA'') [js ''r1'']"
proof -
  have h: "js ''guildA'' \<notin> fst ` set [(js ''guildB'', otherSettings)]"
    by (simp add: js_simps)
  from h getGuildSettings_default [OF h, where channelId = "js ''c2''"
      and userRoles = "[js ''r1'']"]
  show ?thesis by simp
qed

section \<open>The word-list cache\<close>

lemma loadBadWords_fresh_guild:
  assumes "truthy guildId" and "lastCacheUpdate e (the guildId) = Some t"
    and "now - t < cacheExpiry" and "badWordsCache e (the guildId) = Some ws"
  shows "loadBadWords e st guildId now = (ws, e, st)"
  using assms by (simp add: loadBadWords_def cacheKeyOf_def Let_def)

lemma loadBadWords_stale:
  assumes "available st"
    and "cacheExpiry \<le> now -
           (case lastCacheUpdate e (cacheKeyOf guildId) of None \<Rightarrow> 0 | Some t \<Rightarrow> t)"
  shows "\<exists>ws. loadBadWords e st guildId now =
           (ws,
            e\<lparr>badWordsCache := (badWordsCache e)(cacheKeyOf guildId \<mapsto> ws),
              lastCacheUpdate := (lastCacheUpdate e)(cacheKeyOf guildId \<mapsto> now)\<rparr>,
            st\<lparr>findAllCalls := findAllCalls st + 1\<rparr>)
         \<and> ws = map processWord
                  (filter (\<lambda>r. r_guildId r = (if truthy guildId then guildId else None)
                                \<and> r_language r = custom \<and> r_isActive r) (rows st))"
  using assms by (auto simp add: loadBadWords_def Let_def findAll_def)

text \<open>
  C2. Evaluation of the code on the global scope: the first \<^verbatim>\<open>loadBadWords(null)\<close> fetches
  the global list, returns it and stores it under the key \<^verbatim>\<open>'global'\<close> with the time of
  the load; the second call, one millisecond later, makes no fetch and returns the empty
  list, not the list that was cached.
\<close>

theorem loadBadWords_global_fresh_empty:
  "(case loadBadWords newEngine globalStore None 1000000 of
      (r1, e1, st1) \<Rightarrow>
        r1 = [processWord globalRow]
        \<and> badWordsCache e1 (js ''global'') = Some [processWord globalRow]
        \<and> lastCacheUpdate e1 (js ''global'') = Some 1000000
        \<and> (case loadBadWords e1 st1 None 1000001 of
              (r2, e2, st2) \<Rightarrow> r2 = [] \<and> findAllCalls st2 = 1))"
  by (simp add: loadBadWords_def newEngine_def globalStore_def globalRow_def cacheKeyOf_def
      truthy_def cacheExpiry_def findAll_def Let_def)

text \<open>
  C4. When the entry is not fresh and the store does not answer, \<^verbatim>\<open>loadBadWords\<close> returns
  the empty list (its result has no error) and the engine, cache and time stamps
  included, is the one before the call. The store has seen one more \<^verbatim>\<open>findAll\<close>.
\<close>

theorem loadBadWords_fail_open:
  assumes "\<not> available st"
    and "cacheExpiry \<le> now -
           (case lastCacheUpdate e (cacheKeyOf guildId) of None \<Rightarrow> 0 | Some t \<Rightarrow> t)"
  shows "loadBadWords e st guildId now = ([], e, st\<lparr>findAllCalls := findAllCalls st + 1\<rparr>)"
  using assms by (simp add: loadBadWords_def Let_def findAll_def)

theorem loadBadWords_fail_open_witness:
  "\<not> available downStore
   \<and> cacheExpiry \<le> 1000000 -
       (case lastCacheUpdate staleEngine (cacheKeyOf (Some (js ''guildA''))) of
          None \<Rightarrow> 0 | Some t \<Rightarrow> t)
   \<and> loadBadWords staleEngine downStore (Some (js ''guildA'')) 1000000
       = ([], staleEngine, downStore\<lparr>findAllCalls := 1\<rparr>)"
proof -
  have h1: "\<not> available downStore" by (simp add: downStore_def)
  have h2: "cacheExpiry \<le> 1000000 -
       (case lastCacheUpdate staleEngine (cacheKeyOf (Some (js ''guildA''))) of
          None \<Rightarrow> 0 | Some t \<Rightarrow> t)"
    by (simp add: cacheExpiry_def staleEngine_def cacheKeyOf_def truthy_def js_simps)
  have "findAllCalls downStore = 0" by (simp add: downStore_def)
  with h1 h2 loadBadWords_fail_open [OF h1 h2] show ?thesis by simp
qed

lemma filter_removed:
  "(length (filter (\<lambda>x. \<not> P x) xs) < length xs) = (0 < length (filter P xs))"
  using sum_length_filter_compl [of P xs] by arith

lemma destroy_accepted:
  "available st \<Longrightarrow>
   \<exists>n st'. destroy st wh = (Inr n, st')
             \<and> (0 < n) = (length (rows st') < length (rows st))"
  by (simp add: destroy_def filter_removed)

text \<open>
  C5. A write that the store accepts deletes the scope's cache entry and its time stamp:
  \<^verbatim>\<open>addBadWord\<close> always, \<^verbatim>\<open>removeBadWord\<close> whether or not a row was removed, returning
  whether one was. The next \<^verbatim>\<open>loadBadWords\<close> for the scope then calls \<^verbatim>\<open>findAll\<close> once, also
  inside the expiry window of an earlier load (\<^verbatim>\<open>Date.now()\<close> itself is at least the expiry).
  A write that the store rejects throws the store's error again and leaves the engine,
  cache and time stamps included, as it was.
\<close>

theorem write_invalidates_cache:
  assumes "cacheExpiry \<le> now" and "list_all inLowerCaseBlocks w"
  shows "(available st \<longrightarrow>
            (case addBadWord e st w lang sev guildId addedBy of
               (r, e', st') \<Rightarrow>
                 badWordsCache e' (cacheKeyOf guildId) = None
                 \<and> lastCacheUpdate e' (cacheKeyOf guildId) = None
                 \<and> findAllCalls (snd (snd (loadBadWords e' st' guildId now)))
                     = findAllCalls st' + 1)
          \<and> (case removeBadWord e st w guildId of
               (r, e', st') \<Rightarrow>
                 r = Inr (length (rows st') < length (rows st))
                 \<and> badWordsCache e' (cacheKeyOf guildId) = None
                 \<and> lastCacheUpdate e' (cacheKeyOf guildId) = None
                 \<and> findAllCalls (snd (snd (loadBadWords e' st' guildId now)))
                     = findAllCalls st' + 1))
       \<and> (\<not> available st \<longrightarrow>
            addBadWord e st w lang sev guildId addedBy = (Inl StoreUnavailable, e, st)
            \<and> removeBadWord e st w guildId = (Inl StoreUnavailable, e, st))"
proof (cases "available st")
  case True
  let ?wh = "\<lambda>r. r_word r = trim (toLowerCase w) \<and> r_guildId r = guildId
                    \<and> r_language r = custom"
  from destroy_accepted [OF True, of ?wh] obtain n st1 where
    d: "destroy st ?wh = (Inr n, st1)"
    and n: "(0 < n) = (length (rows st1) < length (rows st))"
    by blast
  have add: "case addBadWord e st w lang sev guildId addedBy of
               (r, e', st') \<Rightarrow>
                 badWordsCache e' (cacheKeyOf guildId) = None
                 \<and> lastCacheUpdate e' (cacheKeyOf guildId) = None
                 \<and> findAllCalls (snd (snd (loadBadWords e' st' guildId now)))
                     = findAllCalls st' + 1"
    using True assms(1)
    by (simp add: addBadWord_def create_def Let_def loadBadWords_def findAll_def
        split: sum.splits)
  have remove: "case removeBadWord e st w guildId of
               (r, e', st') \<Rightarrow>
                 r = Inr (length (rows st') < length (rows st))
                 \<and> badWordsCache e' (cacheKeyOf guildId) = None
                 \<and> lastCacheUpdate e' (cacheKeyOf guildId) = None
                 \<and> findAllCalls (snd (snd (loadBadWords e' st' guildId now)))
                     = findAllCalls st' + 1"
    using assms(1) n
    by (simp add: removeBadWord_def d Let_def loadBadWords_def findAll_def split: sum.splits)
  from True add remove show ?thesis by simp
next
  case False
  then show ?thesis
    by (simp add: addBadWord_def removeBadWord_def create_def destroy_def)
qed

theorem write_invalidates_cache_witness:
  "cacheExpiry \<le> 1000001 \<and> list_all inLowerCaseBlocks (js ''badword'')
   \<and> available guildStore \<and> \<not> available downStore
   \<and> 1000001 - 1000000 < cacheExpiry
   \<and> findAllCalls (snd (snd (loadBadWords loadedEngine guildStore (Some (js ''guildA''))
        1000001))) = 0
   \<and> (case addBadWord loadedEngine guildStore (js ''badword'') custom HIGH
             (Some (js ''guildA'')) None of
        (r, e', st') \<Rightarrow>
          badWordsCache e' (js ''guildA'') = None \<and> lastCacheUpdate e' (js ''guildA'') = None
          \<and> findAllCalls (snd (snd (loadBadWords e' st' (Some (js ''guildA'')) 1000001))) = 1)
   \<and> (case removeBadWord loadedEngine guildStore (js ''badword'') (Some (js ''guildA'')) of
        (r, e', st') \<Rightarrow>
          r = Inr True \<and> rows st' = []
          \<and> badWordsCache e' (js ''guildA'') = None \<and> lastCacheUpdate e' (js ''guildA'') = None
          \<and> findAllCalls (snd (snd (loadBadWords e' st' (Some (js ''guildA'')) 1000001))) = 1)
   \<and> addBadWord loadedEngine downStore (js ''badword'') custom HIGH (Some (js ''guildA'')) None
       = (Inl StoreUnavailable, loadedEngine, downStore)
   \<and> removeBadWord loadedEngine downStore (js ''badword'') (Some (js ''guildA''))
       = (Inl StoreUnavailable, loadedEngine, downStore)"
proof -
  have h1: "cacheExpiry \<le> 1000001" by (simp add: cacheExpiry_def)
  have h2: "list_all inLowerCaseBlocks (js ''badword'')"
    by (simp add: inLowerCaseBlocks_def js_simps)
  have a: "available guildStore" by (simp add: guildStore_def)
  have d: "\<not> available downStore" by (simp add: downStore_def)
  have i: "(1000001 :: int) - 1000000 < cacheExpiry" by (simp add: cacheExpiry_def)
  have k: "cacheKeyOf (Some (js ''guildA'')) = js ''guildA''"
    by (simp add: cacheKeyOf_def truthy_def js_simps)
  have f: "findAllCalls (snd (snd (loadBadWords loadedEngine guildStore (Some (js ''guildA''))
             1000001))) = 0"
    by (simp add: loadBadWords_def loadedEngine_def guildStore_def cacheKeyOf_def
        cacheExpiry_def truthy_def js_simps Let_def)
  have ca: "findAllCalls (snd (snd (addBadWord loadedEngine guildStore (js ''badword'') custom
              HIGH (Some (js ''guildA'')) None))) = 0"
    by (simp add: addBadWord_def create_def guildStore_def Let_def)
  have cr: "findAllCalls (snd (snd (removeBadWord loadedEngine guildStore (js ''badword'')
              (Some (js ''guildA''))))) = 0"
    and rr: "rows (snd (snd (removeBadWord loadedEngine guildStore (js ''badword'')
              (Some (js ''guildA''))))) = []"
    by (simp_all add: removeBadWord_def destroy_def guildStore_def guildRow_def trim_def
        toLowerCase_def lowerChar_def isSpace_def js_simps Let_def)
  have r0: "rows guildStore = [guildRow]" by (simp add: guildStore_def)
  note up = write_invalidates_cache [OF h1 h2, where e = loadedEngine and st = guildStore
      and lang = custom and sev = HIGH and guildId = "Some (js ''guildA'')" and addedBy = None]
  note down = write_invalidates_cache [OF h1 h2, where e = loadedEngine and st = downStore
      and lang = custom and sev = HIGH and guildId = "Some (js ''guildA'')" and addedBy = None]
  from up [unfolded k] a have u: "(case addBadWord loadedEngine guildStore (js ''badword'') custom HIGH
             (Some (js ''guildA'')) None of
        (r, e', st') \<Rightarrow>
          badWordsCache e' (js ''guildA'') = None \<and> lastCacheUpdate e' (js ''guildA'') = None
          \<and> findAllCalls (snd (snd (loadBadWords e' st' (Some (js ''guildA'')) 1000001)))
              = findAllCalls st' + 1)
     \<and> (case removeBadWord loadedEngine guildStore (js ''badword'') (Some (js ''guildA'')) of
        (r, e', st') \<Rightarrow>
          r = Inr (length (rows st') < length (rows guildStore))
          \<and> badWordsCache e' (js ''guildA'') = None \<and> lastCacheUpdate e' (js ''guildA'') = None
          \<and> findAllCalls (snd (snd (loadBadWords e' st' (Some (js ''guildA'')) 1000001)))
              = findAllCalls st' + 1)"
    by simp
  from down d have dn:
    "addBadWord loadedEngine downStore (js ''badword'') custom HIGH (Some (js ''guildA'')) None
       = (Inl StoreUnavailable, loadedEngine, downStore)
     \<and> removeBadWord loadedEngine downStore (js ''badword'') (Some (js ''guildA''))
       = (Inl StoreUnavailable, loadedEngine, downStore)"
    by simp
  from u ca cr rr r0 have u': "(case addBadWord loadedEngine guildStore (js ''badword'') custom HIGH
             (Some (js ''guildA'')) None of
        (r, e', st') \<Rightarrow>
          badWordsCache e' (js ''guildA'') = None \<and> lastCacheUpdate e' (js ''guildA'') = None
          \<and> findAllCalls (snd (snd (loadBadWords e' st' (Some (js ''guildA'')) 1000001))) = 1)
     \<and> (case removeBadWord loadedEngine guildStore (js ''badword'') (Some (js ''guildA'')) of
        (r, e', st') \<Rightarrow>
          r = Inr True \<and> rows st' = []
          \<and> badWordsCache e' (js ''guildA'') = None \<and> lastCacheUpdate e' (js ''guildA'') = None
          \<and> findAllCalls (snd (snd (loadBadWords e' st' (Some (js ''guildA'')) 1000001))) = 1)"
    by (auto split: prod.splits)
  from h1 h2 a d i f u' dn show ?thesis by (elim conjE, intro conjI) assumption+
qed

text \<open>C5, as stated, fails on a write that the store rejects, here on an engine that
  loaded the list one millisecond before: the error is thrown again, the cache entry and
  its time stamp stay, and the next load is served from the cache with no fetch.\<close>

theorem rejected_write_keeps_cache_counterexample:
  "(case addBadWord loadedEngine downStore (js ''slur'') custom HIGH (Some (js ''guildA'')) None of
      (r, e', st') \<Rightarrow>
        r = Inl StoreUnavailable
        \<and> badWordsCache e' (js ''guildA'') = Some [processWord guildRow]
        \<and> lastCacheUpdate e' (js ''guildA'') = Some 1000000
        \<and> loadBadWords e' st' (Some (js ''guildA'')) 1000001
            = ([processWord guildRow], e', st')
        \<and> findAllCalls st' = 0)
   \<and> (case removeBadWord loadedEngine downStore (js ''badword'') (Some (js ''guildA'')) of
      (r, e', st') \<Rightarrow>
        r = Inl StoreUnavailable
        \<and> badWordsCache e' (js ''guildA'') = Some [processWord guildRow]
        \<and> lastCacheUpdate e' (js ''guildA'') = Some 1000000
        \<and> loadBadWords e' st' (Some (js ''guildA'')) 1000001
            = ([processWord guildRow], e', st')
        \<and> findAllCalls st' = 0)"
  by (simp add: addBadWord_def removeBadWord_def create_def destroy_def downStore_def
      loadedEngine_def newEngine_def loadBadWords_def cacheKeyOf_def truthy_def cacheExpiry_def
      js_simps Let_def)

text \<open>
  C8. \<^verbatim>\<open>addBadWord\<close> has no check of its own on the word: whenever the store accepts the
  write, it persists the lowercased, trimmed word, empty or not, as a \<^verbatim>\<open>'custom'\<close> row and
  returns the created row, with no error.
\<close>

theorem addBadWord_persists:
  assumes "available st" and "list_all inLowerCaseBlocks w"
  shows "addBadWord e st w lang sev guildId addedBy =
           (Inr \<lparr>r_word = trim (toLowerCase w), r_language = custom, r_severity = sev,
                 r_guildId = guildId, r_isActive = True, r_addedBy = addedBy\<rparr>,
            e\<lparr>badWordsCache := (badWordsCache e)(cacheKeyOf guildId := None),
              lastCacheUpdate := (lastCacheUpdate e)(cacheKeyOf guildId := None)\<rparr>,
            st\<lparr>rows := rows st @ [\<lparr>r_word = trim (toLowerCase w), r_language = custom,
                 r_severity = sev, r_guildId = guildId, r_isActive = True,
                 r_addedBy = addedBy\<rparr>]\<rparr>)"
  using assms(1) by (simp add: addBadWord_def create_def Let_def)

theorem addBadWord_persists_witness:
  "available guildStore \<and> list_all inLowerCaseBlocks (js '' SLUR '')
   \<and> fst (addBadWord newEngine guildStore (js '' SLUR '') custom HIGH (Some (js ''guildA''))
            (Some (js ''mod1'')))
     = Inr \<lparr>r_word = js ''slur'', r_language = custom, r_severity = HIGH,
            r_guildId = Some (js ''guildA''), r_isActive = True,
            r_addedBy = Some (js ''mod1'')\<rparr>"
proof -
  have h: "available guildStore" by (simp add: guildStore_def)
  have b: "list_all inLowerCaseBlocks (js '' SLUR '')"
    by (simp add: inLowerCaseBlocks_def js_simps)
  have t: "trim (toLowerCase (js '' SLUR '')) = js ''slur''"
    by (simp add: trim_def toLowerCase_def js_simps isSpace_def lowerChar_def)
  from h b t addBadWord_persists [OF h b, where e = newEngine
      and lang = custom and sev = HIGH and guildId = "Some (js ''guildA'')"
      and addedBy = "Some (js ''mod1'')"]
  show ?thesis by simp
qed

text \<open>C8, as stated, fails on a word of three spaces: no error, a row with the empty word.\<close>

theorem addBadWord_blank_counterexample:
  "fst (addBadWord newEngine guildStore (js ''   '') custom HIGH (Some (js ''guildA'')) None)
     = Inr \<lparr>r_word = [], r_language = custom, r_severity = HIGH,
            r_guildId = Some (js ''guildA''), r_isActive = True, r_addedBy = None\<rparr>"
  by (simp add: addBadWord_def create_def guildStore_def trim_def toLowerCase_def js_simps
      isSpace_def lowerChar_def Let_def)

section \<open>The similarity functions return\<close>

lemma count_update:
  "j < length m \<Longrightarrow> \<not> m ! j \<Longrightarrow> length (filter (\<lambda>b. b) (m[j := True])) = Suc (length (filter (\<lambda>b. b) m))"
proof (induction m arbitrary: j)
  case Nil
  then show ?case by simp
next
  case (Cons b m)
  then show ?case by (cases j) auto
qed

lemma find_Some_set: "find P xs = Some x \<Longrightarrow> x \<in> set xs \<and> P x"
  by (induction xs) (auto split: if_splits)

lemma jaroMatches_counts:
  assumes "length m2 = length str2"
    and "jaroMatches str2 w s i m2 = (f, m2')"
  shows "length m2' = length str2 \<and> length f = length s
         \<and> length (filter (\<lambda>b. b) m2') = length (filter (\<lambda>b. b) m2) + length (filter (\<lambda>b. b) f)"
  using assms
proof (induction s arbitrary: i m2 f m2')
  case Nil
  then show ?case by simp
next
  case (Cons c cs)
  let ?range = "[nat (max 0 (int i - w)) ..< nat (min (int i + w + 1) (int (length str2)))]"
  show ?case
  proof (cases "find (\<lambda>j. \<not> m2 ! j \<and> c = str2 ! j) ?range")
    case None
    obtain f1 m2a where r: "jaroMatches str2 w cs (i + 1) m2 = (f1, m2a)"
      by (cases "jaroMatches str2 w cs (i + 1) m2")
    with None Cons.prems(2) have "f = False # f1" "m2' = m2a"
      by (simp_all add: Let_def)
    with Cons.IH [OF Cons.prems(1) r] show ?thesis by simp
  next
    case (Some j)
    from find_Some_set [OF this] have j: "j \<in> set ?range" "\<not> m2 ! j"
      by simp_all
    then have jl: "j < length m2" using Cons.prems(1) by auto
    obtain f1 m2a where r: "jaroMatches str2 w cs (i + 1) (m2[j := True]) = (f1, m2a)"
      by (cases "jaroMatches str2 w cs (i + 1) (m2[j := True])")
    with Some Cons.prems(2) have "f = True # f1" "m2' = m2a"
      by (simp_all add: Let_def)
    moreover have "length (m2[j := True]) = length str2" using Cons.prems(1) by simp
    note Cons.IH [OF this r]
    ultimately show ?thesis using count_update [OF jl j(2)] by simp
  qed
qed

lemma dropWhile_unmatched_count:
  "length (filter snd (dropWhile (\<lambda>(d, m'). \<not> m') ys)) = length (filter snd ys)"
  by (induction ys) auto

lemma jaroTranspositions_returns:
  "length (filter snd xs) \<le> length (filter snd ys) \<Longrightarrow> \<exists>t. jaroTranspositions xs ys = Some t"
proof (induction xs arbitrary: ys)
  case Nil
  then show ?case by simp
next
  case (Cons x xs)
  obtain c m where x: "x = (c, m)" by (cases x)
  show ?case
  proof (cases m)
    case False
    with Cons x show ?thesis by simp
  next
    case True
    let ?d = "dropWhile (\<lambda>(d, m'). \<not> m') ys"
    have cnt: "length (filter snd ?d) = length (filter snd ys)"
      by (rule dropWhile_unmatched_count)
    have "filter snd ys \<noteq> []" using Cons.prems x True by auto
    then obtain y where "y \<in> set ys" and "snd y" by (auto simp: filter_empty_conv)
    then have "\<exists>x \<in> set ys. \<not> (\<lambda>(d, m'). \<not> m') x" by (intro bexI [of _ y]) auto
    then have "?d \<noteq> []" by (simp add: dropWhile_eq_Nil_conv)
    then obtain d m' ys' where d: "?d = (d, m') # ys'" by (cases ?d) auto
    have "\<not> (\<lambda>(d, m'). \<not> m') (hd ?d)" using \<open>?d \<noteq> []\<close> by (rule hd_dropWhile)
    with d have "m'" by simp
    with cnt d Cons.prems x True have "length (filter snd xs) \<le> length (filter snd ys')"
      by simp
    from Cons.IH [OF this] obtain t where "jaroTranspositions xs ys' = Some t" ..
    with x True d show ?thesis by simp
  qed
qed

lemma filter_snd_zip:
  "length a = length b \<Longrightarrow> length (filter snd (zip a b)) = length (filter (\<lambda>b. b) b)"
  by (induction a b rule: list_induct2) auto

lemma calculateJaroSimilarity_not_None: "calculateJaroSimilarity str1 str2 \<noteq> None"
proof -
  obtain f m2' where r:
    "jaroMatches str2 (int (max (length str1) (length str2) div 2) - 1) str1 0
       (replicate (length str2) False) = (f, m2')"
    by (cases "jaroMatches str2 (int (max (length str1) (length str2) div 2) - 1) str1 0
       (replicate (length str2) False)")
  have "length (replicate (length str2) False) = length str2" by simp
  from jaroMatches_counts [OF this r]
  have l: "length m2' = length str2" "length f = length str1"
    and c: "length (filter (\<lambda>b. b) m2') = length (filter (\<lambda>b. b) f)"
    by simp_all
  have "length (filter snd (zip str1 f)) \<le> length (filter snd (zip str2 m2'))"
    using l c by (simp add: filter_snd_zip)
  from jaroTranspositions_returns [OF this]
  obtain t where "jaroTranspositions (zip str1 f) (zip str2 m2') = Some t" ..
  with r show ?thesis by (simp add: calculateJaroSimilarity_def Let_def)
qed

lemma calculateAdvancedSimilarity_not_None: "calculateAdvancedSimilarity word1 word2 \<noteq> None"
  using calculateJaroSimilarity_not_None [of word1 word2]
  by (auto simp add: calculateAdvancedSimilarity_def Let_def split: option.splits)

lemma calculateAdvancedSimilarity_returns: "\<exists>r. calculateAdvancedSimilarity word1 word2 = Some r"
  using calculateAdvancedSimilarity_not_None [of word1 word2] by auto

section \<open>Loops that return\<close>

lemma foldM_returns:
  "(\<And>x s. x \<in> set xs \<Longrightarrow> \<exists>s'. f x s = Some s') \<Longrightarrow> \<exists>s'. foldM f xs s = Some s'"
proof (induction xs arbitrary: s)
  case Nil
  then show ?case by simp
next
  case (Cons x xs)
  from Cons.prems [of x s] obtain s1 where s1: "f x s = Some s1" by auto
  from Cons.IH [of s1] Cons.prems obtain s' where "foldM f xs s1 = Some s'" by auto
  with s1 show ?case by simp
qed

lemma foldM_invariant:
  assumes "foldM f xs s = Some s'" and "P s"
    and "\<And>x a b. x \<in> set xs \<Longrightarrow> P a \<Longrightarrow> f x a = Some b \<Longrightarrow> P b"
  shows "P s'"
  using assms
proof (induction xs arbitrary: s)
  case Nil
  then show ?case by simp
next
  case (Cons x xs)
  from Cons.prems(1) obtain s1 where s1: "f x s = Some s1" and r: "foldM f xs s1 = Some s'"
    by (auto split: option.splits)
  have "P s1" using Cons.prems(3) [of x s s1] Cons.prems(2) s1 by simp
  show ?case
  proof (rule Cons.IH [OF r \<open>P s1\<close>])
    fix y a b
    assume "y \<in> set xs" and "P a" and "f y a = Some b"
    then show "P b" using Cons.prems(3) [of y a b] by simp
  qed
qed

lemma findFuzzySubstring_returns: "\<exists>fz. findFuzzySubstring text target threshold = Some fz"
  unfolding findFuzzySubstring_def Let_def
proof (rule foldM_returns)
  fix x :: "int \<times> int" and s :: fuzzy
  obtain r where "calculateAdvancedSimilarity (substring text (fst x) (fst x + snd x)) target
                    = Some r"
    using calculateAdvancedSimilarity_returns by blast
  then show "\<exists>s'. fuzzyStep text target threshold x s = Some s'"
    by (cases x) (simp add: fuzzyStep_def)
qed

lemma similarityStep_returns: "\<exists>b. similarityStep t c v w best = Some b"
proof -
  obtain r where "calculateAdvancedSimilarity w t = Some r"
    using calculateAdvancedSimilarity_returns by blast
  then show ?thesis by (simp add: similarityStep_def)
qed

lemma versionStep_returns: "\<exists>b. versionStep t c v best = Some b"
proof -
  have "\<exists>b1. foldM (similarityStep t c v)
      (filter (\<lambda>w. length w > 1) (splitSpaces False [] v)) best = Some b1"
    by (rule foldM_returns) (rule similarityStep_returns)
  then obtain b1 where b1: "foldM (similarityStep t c v)
      (filter (\<lambda>w. length w > 1) (splitSpaces False [] v)) best = Some b1" ..
  obtain fz where "findFuzzySubstring v t c = Some fz"
    using findFuzzySubstring_returns by blast
  with b1 show ?thesis by (simp add: versionStep_def Let_def)
qed

lemma scanVersions_returns: "\<exists>r. scanVersions t c vs best = Some r"
proof (induction vs arbitrary: best)
  case Nil
  then show ?case by simp
next
  case (Cons v vs)
  obtain b where "versionStep t c v best = Some b" using versionStep_returns by blast
  with Cons show ?case by simp
qed

lemma detectWordWithAdvancedMatching_returns:
  "\<exists>r. detectWordWithAdvancedMatching text targetWord conf = Some r"
  by (simp add: detectWordWithAdvancedMatching_def scanVersions_returns)

section \<open>What the version loop keeps\<close>

lemma step_of_refl: "step_of a a"
  by (simp add: step_of_def)

lemma step_of_trans: "step_of a b \<Longrightarrow> step_of b c \<Longrightarrow> step_of a c"
  by (auto simp: step_of_def)

lemma similarityStep_step: "similarityStep t c v w a = Some b \<Longrightarrow> step_of a b"
  by (auto simp: similarityStep_def step_of_def split: option.splits if_splits)

lemma similarity_loop_step:
  assumes "foldM (similarityStep t c v) ws a = Some b"
  shows "step_of a b"
proof (rule foldM_invariant [where P = "step_of a", OF assms step_of_refl])
  fix x p q
  assume "step_of a p" and "similarityStep t c v x p = Some q"
  then show "step_of a q" using similarityStep_step step_of_trans by blast
qed

lemma versionStep_unfold:
  assumes "versionStep t c v a = Some b"
  shows "\<exists>b1 fz. foldM (similarityStep t c v)
                     (filter (\<lambda>w. length w > 1) (splitSpaces False [] v)) a = Some b1
           \<and> b = afterReverse v t (afterSequence v t (afterFuzzy v fz b1))"
  using assms by (auto simp add: versionStep_def Let_def split: option.splits)

lemma versionStep_step:
  assumes "versionStep t c v a = Some b"
  shows "step_of a b"
proof -
  from versionStep_unfold [OF assms] obtain b1 fz where
    b1: "foldM (similarityStep t c v) (filter (\<lambda>w. length w > 1) (splitSpaces False [] v)) a
           = Some b1"
    and b: "b = afterReverse v t (afterSequence v t (afterFuzzy v fz b1))"
    by blast
  have s1: "step_of a b1" using b1 by (rule similarity_loop_step)
  have s2: "step_of b1 (afterFuzzy v fz b1)" by (simp add: afterFuzzy_def step_of_def)
  have s3: "step_of (afterFuzzy v fz b1) (afterSequence v t (afterFuzzy v fz b1))"
    by (simp add: afterSequence_def step_of_def)
  have s4: "step_of (afterSequence v t (afterFuzzy v fz b1))
              (afterReverse v t (afterSequence v t (afterFuzzy v fz b1)))"
    by (simp add: afterReverse_def step_of_def)
  from step_of_trans [OF step_of_trans [OF step_of_trans [OF s1 s2] s3] s4] b
  show ?thesis by simp
qed

text \<open>After a version in which the character sequence is detected, the best match is found
  with confidence at least 0.85, provided that before it a positive confidence came with a
  match.\<close>

lemma versionStep_sequence:
  assumes "versionStep t c v a = Some b"
    and "detectCharacterSequence v t (75 / 100)"
    and "m_confidence a > 0 \<longrightarrow> found a"
  shows "found b \<and> m_confidence b \<ge> 85 / 100"
proof -
  from versionStep_unfold [OF assms(1)] obtain b1 fz where
    b1: "foldM (similarityStep t c v) (filter (\<lambda>w. length w > 1) (splitSpaces False [] v)) a
           = Some b1"
    and b: "b = afterReverse v t (afterSequence v t (afterFuzzy v fz b1))"
    by blast
  have s1: "step_of a b1" using b1 by (rule similarity_loop_step)
  have k1: "m_confidence b1 > 0 \<longrightarrow> found b1" using s1 assms(3) by (auto simp: step_of_def)
  have k2: "m_confidence (afterFuzzy v fz b1) > 0 \<longrightarrow> found (afterFuzzy v fz b1)"
    using k1 by (simp add: afterFuzzy_def)
  have k3: "found (afterSequence v t (afterFuzzy v fz b1))
            \<and> m_confidence (afterSequence v t (afterFuzzy v fz b1)) \<ge> 85 / 100"
    using k2 assms(2) unfolding afterSequence_def by (cases "85 / 100 > m_confidence (afterFuzzy v fz b1)") auto
  have k4: "found (afterReverse v t (afterSequence v t (afterFuzzy v fz b1)))
            \<and> m_confidence (afterReverse v t (afterSequence v t (afterFuzzy v fz b1))) \<ge> 85 / 100"
    using k3 by (simp add: afterReverse_def)
  with b show ?thesis by simp
qed

lemma scanVersions_keeps_floor:
  assumes "scanVersions t c vs a = Some r"
    and "found a \<and> m_confidence a \<ge> 85 / 100"
  shows "found r \<and> m_confidence r \<ge> 85 / 100"
  using assms
proof (induction vs arbitrary: a)
  case Nil
  then show ?case by simp
next
  case (Cons v vs)
  show ?case
  proof (cases "length v < 2")
    case True
    with Cons show ?thesis by simp
  next
    case False
    show ?thesis
    proof (cases "str_includes v t")
      case True
      with False Cons.prems(1) show ?thesis by auto
    next
      case noDirect: False
      with False Cons.prems(1) obtain b where b: "versionStep t c v a = Some b"
        and r: "scanVersions t c vs b = Some r"
        by (auto split: option.splits)
      from versionStep_step [OF b] Cons.prems(2)
      have "found b \<and> m_confidence b \<ge> 85 / 100" by (auto simp: step_of_def)
      from Cons.IH [OF r this] show ?thesis .
    qed
  qed
qed

lemma scanVersions_sequence_floor:
  assumes "scanVersions t c vs a = Some r"
    and "v \<in> set vs" and "2 \<le> length v" and "detectCharacterSequence v t (75 / 100)"
    and "m_confidence a > 0 \<longrightarrow> found a"
  shows "found r \<and> m_confidence r \<ge> 85 / 100"
  using assms
proof (induction vs arbitrary: a)
  case Nil
  then show ?case by simp
next
  case (Cons u vs)
  show ?case
  proof (cases "length u < 2")
    case True
    with Cons.prems have "v \<in> set vs" by auto
    with True Cons show ?thesis by simp
  next
    case False
    show ?thesis
    proof (cases "str_includes u t")
      case True
      with False Cons.prems(1) show ?thesis by auto
    next
      case noDirect: False
      with False Cons.prems(1) obtain b where b: "versionStep t c u a = Some b"
        and r: "scanVersions t c vs b = Some r"
        by (auto split: option.splits)
      show ?thesis
      proof (cases "u = v")
        case True
        with versionStep_sequence [OF b] Cons.prems(4,5)
        have "found b \<and> m_confidence b \<ge> 85 / 100" by simp
        with r show ?thesis by (rule scanVersions_keeps_floor)
      next
        case False
        with Cons.prems(2) have in_vs: "v \<in> set vs" by simp
        have "m_confidence b > 0 \<longrightarrow> found b"
          using versionStep_step [OF b] Cons.prems(5) by (auto simp: step_of_def)
        from Cons.IH [OF r in_vs Cons.prems(3,4) this] show ?thesis .
      qed
    qed
  qed
qed

lemma scanVersions_direct:
  assumes "v \<in> set vs" and "2 \<le> length v" and "str_includes v t"
  shows "\<exists>u \<in> set vs. 2 \<le> length u \<and> str_includes u t
           \<and> scanVersions t c vs a
               = Some \<lparr>found = True, m_confidence = 1, m_method = ''direct'', version = u\<rparr>"
  using assms
proof (induction vs arbitrary: a)
  case Nil
  then show ?case by simp
next
  case (Cons u vs)
  show ?case
  proof (cases "2 \<le> length u \<and> str_includes u t")
    case True
    then have "scanVersions t c (u # vs) a
                 = Some \<lparr>found = True, m_confidence = 1, m_method = ''direct'', version = u\<rparr>"
      by simp
    with True show ?thesis by simp
  next
    case False
    with Cons.prems have in_vs: "v \<in> set vs" by auto
    obtain b where b: "versionStep t c u a = Some b" using versionStep_returns by blast
    have "\<exists>a'. scanVersions t c (u # vs) a = scanVersions t c vs a'"
    proof (cases "length u < 2")
      case True
      then show ?thesis by auto
    next
      case long: False
      with False have "\<not> str_includes u t" by simp
      with long b have "scanVersions t c (u # vs) a = scanVersions t c vs b" by simp
      then show ?thesis ..
    qed
    then obtain a' where a': "scanVersions t c (u # vs) a = scanVersions t c vs a'" ..
    from Cons.IH [OF in_vs Cons.prems(2,3), of a'] obtain w where
      "w \<in> set vs" "2 \<le> length w" "str_includes w t"
      "scanVersions t c vs a'
         = Some \<lparr>found = True, m_confidence = 1, m_method = ''direct'', version = w\<rparr>"
      by blast
    with a' show ?thesis by auto
  qed
qed

lemma scanVersions_direct_only:
  assumes "scanVersions t c vs a = Some r" and "m_method r = ''direct''"
    and "m_method a \<noteq> ''direct''"
  shows "\<exists>v \<in> set vs. 2 \<le> length v \<and> str_includes v t"
  using assms
proof (induction vs arbitrary: a)
  case Nil
  then show ?case by simp
next
  case (Cons u vs)
  show ?case
  proof (cases "2 \<le> length u \<and> str_includes u t")
    case True
    then show ?thesis by auto
  next
    case False
    show ?thesis
    proof (cases "length u < 2")
      case True
      with Cons.prems have "scanVersions t c vs a = Some r" by simp
      from Cons.IH [OF this Cons.prems(2,3)] show ?thesis by auto
    next
      case long: False
      with False Cons.prems(1) obtain b where b: "versionStep t c u a = Some b"
        and r: "scanVersions t c vs b = Some r"
        by (auto split: option.splits)
      have "m_method b \<noteq> ''direct''"
        using versionStep_step [OF b] Cons.prems(3) by (auto simp: step_of_def)
      from Cons.IH [OF r Cons.prems(2) this] show ?thesis by auto
    qed
  qed
qed

lemma normalized_in_variations:
  "normalizeCore text \<noteq> [] \<Longrightarrow> normalizeCore text \<in> set (normalizedVariations text)"
  by (simp add: normalizedVariations_def deepNormalizeText_def Let_def)

section \<open>The severity passed to the flag decision\<close>

text \<open>In \<^verbatim>\<open>analyzeContent\<close>, \<^verbatim>\<open>maxSeverity\<close> starts low and is raised only where a detection is
  pushed: when the loop over the words ends with no detection, it is low.\<close>

lemma analyzeStep_severity:
  assumes "analyzeStep text threshold wordData (ds, ms, c) = Some (ds', ms', c')"
    and "ds = [] \<longrightarrow> ms = LOW"
  shows "ds' = [] \<longrightarrow> ms' = LOW"
  using assms by (auto simp: analyzeStep_def Let_def split: option.splits if_splits)

lemma analyze_loop_severity:
  assumes "foldM (analyzeStep text threshold) badWords ([], LOW, 0) = Some (ds, ms, c)"
  shows "ds = [] \<longrightarrow> ms = LOW"
proof -
  have "(\<lambda>s. fst s = [] \<longrightarrow> fst (snd s) = LOW) (ds, ms, c)"
  proof (rule foldM_invariant [OF assms])
    show "fst ([] :: detection list, LOW, 0 :: rat) = [] \<longrightarrow> fst (snd ([], LOW, 0 :: rat)) = LOW"
      by simp
  next
    fix x a b
    assume p: "fst a = [] \<longrightarrow> fst (snd a) = LOW"
      and s: "analyzeStep text threshold x a = Some b"
    obtain d1 m1 c1 where a: "a = (d1, m1, c1)" by (cases a)
    obtain d2 m2 c2 where b: "b = (d2, m2, c2)" by (cases b)
    from analyzeStep_severity [OF s [unfolded a b]] p a b
    show "fst b = [] \<longrightarrow> fst (snd b) = LOW" by simp
  qed
  then show ?thesis by simp
qed

section \<open>Evaluation of the scenario text\<close>

lemmas norm_defs = normalizeCore_def replaceRe_def reSpaces_def reLiteral_def applyTable_def
  commonSubstitutions_def bypassPatterns_def reSpaced_def joinTail_def reRepeated_def
  reMixedCase_def reSeparated_def reDigits_def
  toLowerCase_def lowerChar_def trim_def isSpace_def
  isLatin_def isUpper_def isLower_def isDigit_def dot_def isLineTerminator_def js_simps Let_def

lemma scenario_normalized:
  "normalizeCore (js ''this is a badword message'') = js ''thisisa badvvordrnessage''"
  by (simp add: norm_defs)

lemma scenario_sequence:
  "detectCharacterSequence (js ''thisisa badvvordrnessage'') (js ''badword'') (75 / 100)"
  by (simp add: detectCharacterSequence_def toLowerCase_def lowerChar_def isLetter_def
      isLatin_def isUpper_def isLower_def commonSubstitutions_def js_simps Let_def
      List.map_filter_simps)

lemma scenario_detected:
  "\<exists>det. detectWordWithAdvancedMatching (js ''this is a badword message'') (js ''badword'')
            (85 / 100) = Some det
         \<and> found det \<and> m_confidence det \<ge> 85 / 100"
proof -
  let ?text = "js ''this is a badword message''"
  let ?v = "js ''thisisa badvvordrnessage''"
  obtain det where det: "detectWordWithAdvancedMatching ?text (js ''badword'') (85 / 100) = Some det"
    using detectWordWithAdvancedMatching_returns by blast
  have "normalizeCore ?text \<noteq> []" unfolding scenario_normalized by (simp add: js_simps)
  from normalized_in_variations [OF this] have v: "?v \<in> set (normalizedVariations ?text)"
    by (simp add: scenario_normalized)
  have l: "2 \<le> length ?v" by (simp add: js_simps)
  have "found det \<and> m_confidence det \<ge> 85 / 100"
    by (rule scanVersions_sequence_floor [OF det [unfolded detectWordWithAdvancedMatching_def]
          v l scenario_sequence]) simp
  with det show ?thesis by blast
qed

section \<open>The direct match\<close>

text \<open>The variations of the text \<^verbatim>\<open>"badword"\<close>: the substitution table rewrites \<^verbatim>\<open>w\<close> to
  \<^verbatim>\<open>vv\<close>, and the transliteration leaves no Latin letter.\<close>

lemma badword_normalized: "normalizeCore (js ''badword'') = js ''badvvord''"
  by (simp add: norm_defs)

lemma badword_variations:
  "deepNormalizeText (js ''badword'') =
     [js ''badvvord'', js ''badvvord'', js ''badvvord'', js ''badvord'', js ''badvverd'']"
proof -
  have l: "lettersOnlyOf (js ''badvvord'') = js ''badvvord''"
    by (simp add: lettersOnlyOf_def isLetter_def isLatin_def isUpper_def isLower_def js_simps)
  have s: "replaceRe (reSpaces []) (js ''badvvord'') = js ''badvvord''"
    by (simp add: replaceRe_def reSpaces_def isSpace_def js_simps Let_def)
  have d: "replaceRe reDuplicates (js ''badvvord'') = js ''badvord''"
    by (simp add: replaceRe_def reDuplicates_def dot_def isLineTerminator_def js_simps Let_def)
  have p: "generatePhoneticVariation (js ''badvvord'') = js ''badvverd''"
    by (simp add: generatePhoneticVariation_def applyTable_def phoneticPatterns_def
        replaceRe_def reLiteral_def js_simps)
  show ?thesis
    unfolding deepNormalizeText_def Let_def badword_normalized l s d p
    by (simp add: js_simps)
qed

lemma badword_georgian:
  "convertQwertyToGeorgian (js ''badword'') = [4305, 4304, 4307, 4332, 4317, 4320, 4307]"
  by (simp add: convertQwertyToGeorgian_def georgianQwertyMap_def georgianPatterns_def
      applyTable_def replaceRe_def reLetterCI_def reWord_def canonicalize_def wordBefore_def
      wordAt_def isWordChar_def isLatin_def isUpper_def isLower_def isDigit_def
      toLowerCase_def lowerChar_def js_simps Let_def)

lemma georgian_normalized:
  "normalizeCore [4305, 4304, 4307, 4332, 4317, 4320, 4307]
     = [4305, 4304, 4307, 4332, 4317, 4320, 4307]"
  by (simp add: norm_defs)

lemma georgian_variations:
  "deepNormalizeText [4305, 4304, 4307, 4332, 4317, 4320, 4307] =
     replicate 5 [4305, 4304, 4307, 4332, 4317, 4320, 4307]"
proof -
  have l: "lettersOnlyOf [4305, 4304, 4307, 4332, 4317, 4320, 4307]
             = [4305, 4304, 4307, 4332, 4317, 4320, 4307]"
    by (simp add: lettersOnlyOf_def isLetter_def)
  have s: "replaceRe (reSpaces []) [4305, 4304, 4307, 4332, 4317, 4320, 4307]
             = [4305, 4304, 4307, 4332, 4317, 4320, 4307]"
    by (simp add: replaceRe_def reSpaces_def isSpace_def Let_def)
  have d: "replaceRe reDuplicates [4305, 4304, 4307, 4332, 4317, 4320, 4307]
             = [4305, 4304, 4307, 4332, 4317, 4320, 4307]"
    by (simp add: replaceRe_def reDuplicates_def dot_def isLineTerminator_def Let_def)
  have p: "generatePhoneticVariation [4305, 4304, 4307, 4332, 4317, 4320, 4307]
             = [4305, 4304, 4307, 4332, 4317, 4320, 4307]"
    by (simp add: generatePhoneticVariation_def applyTable_def phoneticPatterns_def
        replaceRe_def reLiteral_def js_simps)
  show ?thesis
    unfolding deepNormalizeText_def Let_def georgian_normalized l s d p
    by (simp add: numeral_eq_Suc)
qed

lemma badword_not_included:
  "\<forall>v \<in> set (normalizedVariations (js ''badword'')). \<not> str_includes v (js ''badword'')"
  unfolding normalizedVariations_def Let_def badword_georgian badword_variations
    georgian_variations
  by (simp add: js_simps numeral_eq_Suc)

lemma badword_sequence:
  "detectCharacterSequence (js ''badvvord'') (js ''badword'') (75 / 100)"
  by (simp add: detectCharacterSequence_def toLowerCase_def lowerChar_def isLetter_def
      isLatin_def isUpper_def isLower_def commonSubstitutions_def js_simps Let_def
      List.map_filter_simps)

text \<open>
  C1. Evaluation of the code on the text \<^verbatim>\<open>"badword"\<close> with the target word \<^verbatim>\<open>"badword"\<close> and the
  default confidence 0.85. The text contains the word, but the substitution table rewrites
  \<^verbatim>\<open>w\<close> to \<^verbatim>\<open>vv\<close> before any matching and no variation contains the word: the call returns a
  match that is found, by a method other than \<^verbatim>\<open>"direct"\<close>.
\<close>

theorem detect_badword_not_direct:
  "detectWordWithAdvancedMatching (js ''badword'') (js ''badword'') (85 / 100) \<noteq> None
   \<and> map_option found
         (detectWordWithAdvancedMatching (js ''badword'') (js ''badword'') (85 / 100))
       = Some True
   \<and> map_option m_method
         (detectWordWithAdvancedMatching (js ''badword'') (js ''badword'') (85 / 100))
       \<noteq> Some ''direct''"
proof -
  obtain r where r: "detectWordWithAdvancedMatching (js ''badword'') (js ''badword'') (85 / 100)
                       = Some r"
    using detectWordWithAdvancedMatching_returns by blast
  have "m_method r \<noteq> ''direct''"
  proof
    assume "m_method r = ''direct''"
    from scanVersions_direct_only [OF r [unfolded detectWordWithAdvancedMatching_def] this]
    have "\<exists>v \<in> set (normalizedVariations (js ''badword'')).
            2 \<le> length v \<and> str_includes v (js ''badword'')"
      by simp
    with badword_not_included show False by blast
  qed
  moreover have "found r"
  proof -
    have "normalizeCore (js ''badword'') \<noteq> []"
      unfolding badword_normalized by (simp add: js_simps)
    from normalized_in_variations [OF this]
    have v: "js ''badvvord'' \<in> set (normalizedVariations (js ''badword''))"
      by (simp add: badword_normalized)
    have l: "2 \<le> length (js ''badvvord'')" by (simp add: js_simps)
    have "found r \<and> m_confidence r \<ge> 85 / 100"
      by (rule scanVersions_sequence_floor [OF r [unfolded detectWordWithAdvancedMatching_def]
            v l badword_sequence]) simp
    then show ?thesis ..
  qed
  ultimately show ?thesis using r by simp
qed

section \<open>The containment bonus\<close>

text \<open>
  C9. \<^verbatim>\<open>calculateAdvancedSimilarity\<close> returns 0, before any score is computed, when the
  lengths differ by more than the shorter length. For two non-empty strings whose lengths
  differ by at most the shorter length, one of them inside the other, the result is at
  least 0.8.
\<close>

theorem containment_floor:
  assumes "word1 \<noteq> []" and "word2 \<noteq> []"
    and "str_includes word1 word2 \<or> str_includes word2 word1"
    and "\<bar>int (length word1) - int (length word2)\<bar> \<le> int (min (length word1) (length word2))"
  shows "\<exists>r. calculateAdvancedSimilarity word1 word2 = Some r \<and> r \<ge> 8 / 10"
proof (cases "word1 = word2")
  case True
  with assms(1) show ?thesis by (simp add: calculateAdvancedSimilarity_def)
next
  case False
  obtain j where j: "calculateJaroSimilarity word1 word2 = Some j"
    using calculateJaroSimilarity_not_None [of word1 word2] by auto
  define x where "x = (1 - of_nat (calculateLevenshteinDistance word1 word2)
                           / of_nat (max (length word1) (length word2))) * (4 / 10)
                      + j * (3 / 10) + calculateCharacterOverlap word1 word2 * (2 / 10)
                      + (8 / 10) * (1 / 10 :: rat)"
  have "calculateAdvancedSimilarity word1 word2 = Some (max x (8 / 10))"
    unfolding x_def using False assms j
    by (simp add: calculateAdvancedSimilarity_def Let_def)
  moreover have "max x (8 / 10) \<ge> 8 / 10" by (rule max.cobounded2)
  ultimately show ?thesis by blast
qed

theorem containment_floor_witness:
  "js ''abc'' \<noteq> [] \<and> js ''abcde'' \<noteq> []
   \<and> (str_includes (js ''abc'') (js ''abcde'') \<or> str_includes (js ''abcde'') (js ''abc''))
   \<and> \<bar>int (length (js ''abc'')) - int (length (js ''abcde''))\<bar>
       \<le> int (min (length (js ''abc'')) (length (js ''abcde'')))
   \<and> (\<exists>r. calculateAdvancedSimilarity (js ''abc'') (js ''abcde'') = Some r \<and> r \<ge> 8 / 10)"
proof -
  have h1: "js ''abc'' \<noteq> []" and h2: "js ''abcde'' \<noteq> []" by (simp_all add: js_simps)
  have h3: "str_includes (js ''abc'') (js ''abcde'') \<or> str_includes (js ''abcde'') (js ''abc'')"
    by (simp add: js_simps)
  have h4: "\<bar>int (length (js ''abc'')) - int (length (js ''abcde''))\<bar>
              \<le> int (min (length (js ''abc'')) (length (js ''abcde'')))"
    by (simp add: js_simps)
  from h1 h2 h3 h4 containment_floor [OF h1 h2 h3 h4] show ?thesis by blast
qed

text \<open>C9, as stated, fails on \<^verbatim>\<open>"ab"\<close> and \<^verbatim>\<open>"abcde"\<close>: the first is inside the second and the
  result is 0.\<close>

theorem containment_length_counterexample:
  "str_includes (js ''abcde'') (js ''ab'')
   \<and> calculateAdvancedSimilarity (js ''ab'') (js ''abcde'') = Some 0"
  by (simp add: calculateAdvancedSimilarity_def js_simps Let_def)

section \<open>The scenario\<close>

lemma analyzeStep_scenario:
  assumes "bw_word w = js ''badword''" and "bw_severity w = HIGH"
  shows "\<exists>d c. analyzeStep (js ''this is a badword message'') (85 / 100) w ([], LOW, 0)
                 = Some ([d], HIGH, c) \<and> word d = js ''badword''"
proof -
  have t: "toLowerCase (js ''badword'') = js ''badword''"
    by (simp add: toLowerCase_def lowerChar_def js_simps)
  from scenario_detected obtain det where
    det: "detectWordWithAdvancedMatching (js ''this is a badword message'') (js ''badword'')
            (85 / 100) = Some det"
    and f: "found det" and c: "m_confidence det \<ge> 85 / 100"
    by blast
  show ?thesis
    unfolding analyzeStep_def using assms det f c
    by (simp add: t compareSeverity_def)
qed

text \<open>
  C6. When the list loaded for the guild is the single word \<^verbatim>\<open>badword\<close> of high severity
  and the sensitivity is \<^verbatim>\<open>"medium"\<close>, the analysis of \<^verbatim>\<open>"this is a badword message"\<close> returns a
  result that is not clean, with the detected words \<^verbatim>\<open>["badword"]\<close>, the severity high and
  the action \<^verbatim>\<open>"timeout"\<close>.
\<close>

theorem analyzeContent_scenario:
  assumes "fst (loadBadWords e st (o_guildId opts) now) = [w]"
    and "bw_word w = js ''badword''" and "bw_severity w = HIGH"
    and "o_sensitivity opts = Some ''medium''"
  shows "\<exists>a e' st'. analyzeContent e st (js ''this is a badword message'') opts now
                       = Some (a, e', st')
           \<and> \<not> isClean a \<and> detectedWords a = [js ''badword''] \<and> a_severity a = HIGH
           \<and> action a = ''timeout''"
proof -
  obtain ws e' st' where l: "loadBadWords e st (o_guildId opts) now = (ws, e', st')"
    by (cases "loadBadWords e st (o_guildId opts) now")
  with assms(1) have ws: "ws = [w]" by simp
  from analyzeStep_scenario [OF assms(2,3)] obtain d c where
    s: "analyzeStep (js ''this is a badword message'') (85 / 100) w ([], LOW, 0)
          = Some ([d], HIGH, c)"
    and d: "word d = js ''badword''"
    by blast
  have n: "js ''this is a badword message'' \<noteq> []" by (simp add: js_simps)
  have "analyzeContent e st (js ''this is a badword message'') opts now
          = Some (\<lparr>isClean = False, detectedWords = [js ''badword''], detectedDetails = [d],
                    a_severity = HIGH, a_confidence = c, action = ''timeout'',
                    analysisMethod = ''advanced_pattern_matching''\<rparr>, e', st')"
    unfolding analyzeContent_def
    using n l ws s d assms(4)
    by (simp add: confidenceThresholdOf_def shouldFlagContent_def getRecommendedAction_def)
  then show ?thesis by simp
qed

theorem analyzeContent_scenario_witness:
  "fst (loadBadWords newEngine guildStore
          (o_guildId \<lparr>o_sensitivity = Some ''medium'', o_guildId = Some (js ''guildA'')\<rparr>)
          1000000) = [processWord guildRow]
   \<and> bw_word (processWord guildRow) = js ''badword''
   \<and> bw_severity (processWord guildRow) = HIGH
   \<and> (\<exists>a e' st'.
         analyzeContent newEngine guildStore (js ''this is a badword message'')
           \<lparr>o_sensitivity = Some ''medium'', o_guildId = Some (js ''guildA'')\<rparr> 1000000
           = Some (a, e', st')
         \<and> \<not> isClean a \<and> detectedWords a = [js ''badword''] \<and> a_severity a = HIGH
         \<and> action a = ''timeout'')"
proof -
  let ?opts = "\<lparr>o_sensitivity = Some ''medium'', o_guildId = Some (js ''guildA'')\<rparr>"
  have h1: "fst (loadBadWords newEngine guildStore (o_guildId ?opts) 1000000)
              = [processWord guildRow]"
    by (simp add: loadBadWords_def newEngine_def guildStore_def guildRow_def cacheKeyOf_def
        truthy_def cacheExpiry_def findAll_def js_simps Let_def)
  have h2: "bw_word (processWord guildRow) = js ''badword''"
    by (simp add: processWord_def guildRow_def toLowerCase_def lowerChar_def js_simps)
  have h3: "bw_severity (processWord guildRow) = HIGH"
    by (simp add: processWord_def guildRow_def)
  have h4: "o_sensitivity ?opts = Some ''medium''" by simp
  from h1 h2 h3 analyzeContent_scenario [OF h1 h2 h3 h4] show ?thesis by blast
qed

end
